theory Spec2Isabelle
  imports Complex_Main "HOL-Library.AList" "HOL-Library.Code_Target_Numeral"
begin

section \<open>Statistics primitives (services/analysisUtils)\<close>

text \<open>
  In this section and wherever a function has no suffix, a JavaScript \<open>number\<close> is
  modelled as a \<^typ>\<open>real\<close>: the finite values, with exact arithmetic. The section on
  double precision below models \<open>NaN\<close>, the infinities and rounding, for the two
  properties that they decide. An array of numbers is a \<^typ>\<open>real list\<close>. None of the functions below contains a \<open>throw\<close>, and an
  out-of-range array read in JavaScript yields \<open>undefined\<close> instead of raising, so every
  function is modelled as a total function without an error branch; each array read that
  the model performs is guarded by the same length test as in the source.
\<close>

text \<open>\<open>numbers.reduce((acc, val) => acc + val, 0) / numbers.length\<close>\<close>

definition calculateMean :: "real list \<Rightarrow> real" where
  "calculateMean numbers =
     (if length numbers = 0 then 0
      else fold (\<lambda>val acc. acc + val) numbers 0 / real (length numbers))"

text \<open>
  \<open>Array.prototype.sort\<close> with a comparator \<open>cmp\<close> that returns a number: the element \<open>a\<close>
  goes before \<open>b\<close> when \<open>cmp a b < 0\<close>, and elements that compare equal keep their relative
  order (the sort is stable). The stable arrangement is unique for a consistent comparator,
  so it is modelled by a stable insertion sort.
\<close>

fun insertBy :: "('a \<Rightarrow> 'a \<Rightarrow> real) \<Rightarrow> 'a \<Rightarrow> 'a list \<Rightarrow> 'a list" where
  "insertBy cmp x [] = [x]"
| "insertBy cmp x (y # ys) = (if cmp x y \<le> 0 then x # y # ys else y # insertBy cmp x ys)"

fun sortBy :: "('a \<Rightarrow> 'a \<Rightarrow> real) \<Rightarrow> 'a list \<Rightarrow> 'a list" where
  "sortBy cmp [] = []"
| "sortBy cmp (x # xs) = insertBy cmp x (sortBy cmp xs)"

definition calculateMedian :: "real list \<Rightarrow> real" where
  "calculateMedian numbers =
     (if length numbers = 0 then 0
      else let sorted = sortBy (\<lambda>a b. a - b) numbers;
               mid = length sorted div 2
           in if length sorted mod 2 \<noteq> 0 then sorted ! mid
              else (sorted ! (mid - 1) + sorted ! mid) / 2)"

text \<open>
  The loop of \<open>calculateMode\<close> updates three variables: the \<open>frequency\<close> dictionary,
  \<open>maxFreq\<close> and \<open>mode\<close>. \<open>(frequency[num] || 0)\<close> reads a missing entry as 0.
\<close>

record mode_state =
  frequency :: "real \<rightharpoonup> nat"
  maxFreq :: nat
  mode :: real

definition mode_step :: "real \<Rightarrow> mode_state \<Rightarrow> mode_state" where
  "mode_step num st =
     (let f = (case frequency st num of None \<Rightarrow> 0 | Some c \<Rightarrow> c) + 1;
          st' = st\<lparr>frequency := (frequency st)(num \<mapsto> f)\<rparr>
      in if f > maxFreq st' then st'\<lparr>maxFreq := f, mode := num\<rparr> else st')"

definition calculateMode :: "real list \<Rightarrow> real" where
  "calculateMode numbers =
     (case numbers of
        [] \<Rightarrow> 0
      | n0 # _ \<Rightarrow> mode (fold mode_step numbers \<lparr>frequency = Map.empty, maxFreq = 0, mode = n0\<rparr>))"

definition calculateStdDev :: "real list \<Rightarrow> real \<Rightarrow> real" where
  "calculateStdDev numbers mean =
     (if length numbers = 0 then 0
      else let squareDiffs = map (\<lambda>val. (val - mean) ^ 2) numbers;
               avgSquareDiff = calculateMean squareDiffs
           in sqrt avgSquareDiff)"

definition calculateMin :: "real list \<Rightarrow> real" where
  "calculateMin numbers =
     (if length numbers = 0 then 0
      else fold (\<lambda>i m. if numbers ! i < m then numbers ! i else m)
             [1..<length numbers] (numbers ! 0))"

definition calculateMax :: "real list \<Rightarrow> real" where
  "calculateMax numbers =
     (if length numbers = 0 then 0
      else fold (\<lambda>i m. if numbers ! i > m then numbers ! i else m)
             [1..<length numbers] (numbers ! 0))"

text \<open>
  The loop of \<open>calculateCorrelation\<close> carries \<open>numerator\<close>, \<open>denomX\<close> and \<open>denomY\<close>.
  \<open>isNaN(denominator)\<close> is never true of a real number, so only the test against 0 remains
  of the guard.
\<close>

definition corr_step ::
  "real list \<Rightarrow> real list \<Rightarrow> real \<Rightarrow> real \<Rightarrow> nat \<Rightarrow> real \<times> real \<times> real \<Rightarrow> real \<times> real \<times> real" where
  "corr_step x y xMean yMean i acc =
     (case acc of (numerator, denomX, denomY) \<Rightarrow>
        let xDiff = x ! i - xMean;
            yDiff = y ! i - yMean
        in (numerator + xDiff * yDiff, denomX + xDiff * xDiff, denomY + yDiff * yDiff))"

definition calculateCorrelation :: "real list \<Rightarrow> real list \<Rightarrow> real" where
  "calculateCorrelation x y =
     (if length x \<noteq> length y \<or> length x = 0 then 0
      else let xMean = calculateMean x;
               yMean = calculateMean y
           in case fold (corr_step x y xMean yMean) [0..<length x] (0, 0, 0) of
                (numerator, denomX, denomY) \<Rightarrow>
                  let denominator = sqrt (denomX * denomY)
                  in if denominator = 0 then 0 else numerator / denominator)"

section \<open>Classifier\<close>

datatype StudentPerformanceGroup = HighAchiever | AboveAverage | Average | BelowAverage | AtRisk

definition determineGroup :: "real \<Rightarrow> StudentPerformanceGroup" where
  "determineGroup percentage =
     (if percentage \<ge> 90 then HighAchiever
      else if percentage \<ge> 75 then AboveAverage
      else if percentage \<ge> 60 then Average
      else if percentage \<ge> 50 then BelowAverage
      else AtRisk)"

definition determineGrade :: "real \<Rightarrow> string" where
  "determineGrade percentage =
     (if percentage \<ge> 90 then ''A''
      else if percentage \<ge> 80 then ''B''
      else if percentage \<ge> 70 then ''C''
      else if percentage \<ge> 60 then ''D''
      else ''F'')"

section \<open>Double precision\<close>

text \<open>
  The values of a JavaScript \<open>number\<close> in full: the finite doubles, the two infinities and
  \<open>NaN\<close>. The two zeros are identified; none of the functions modelled here divides by a
  zero that it computed or prints the sign of a zero.
\<close>

datatype number = Finite real | PosInfinity | NegInfinity | NaN

text \<open>
  Rounding to the nearest double, ties to the even significand: the significand has 53
  bits, the exponent of the last bit is at least \<open>-1074\<close>, and a result of magnitude \<open>2^1024\<close>
  or more is an infinity.
\<close>

definition roundEven :: "real \<Rightarrow> int" where
  "roundEven x =
     (let f = \<lfloor>x\<rfloor>; d = x - of_int f
      in if d < 1 / 2 then f else if d > 1 / 2 then f + 1 else if even f then f else f + 1)"

definition rnd :: "real \<Rightarrow> number" where
  "rnd x =
     (if x = 0 then Finite 0
      else let l = \<lfloor>log 2 \<bar>x\<bar>\<rfloor> - 52;
               e = (if l < - 1074 then - 1074 else l);
               y = of_int (roundEven (x / 2 powi e)) * 2 powi e
           in if \<bar>y\<bar> \<ge> 2 ^ 1024 then (if x < 0 then NegInfinity else PosInfinity)
              else Finite y)"

text \<open>
  The arithmetic of the language on these values: the exact result of an operation on
  finite operands is rounded, and \<open>NaN\<close> and the infinities follow the IEEE 754 rules.
  \<open>eq_f64\<close> is \<open>===\<close>, and \<open>ge_f64\<close> and \<open>lt_f64\<close> are \<open>>=\<close> and \<open><\<close>: every comparison with
  \<open>NaN\<close> is false.
\<close>

fun isNaN :: "number \<Rightarrow> bool" where
  "isNaN NaN = True"
| "isNaN _ = False"

fun neg_f64 :: "number \<Rightarrow> number" where
  "neg_f64 (Finite a) = Finite (- a)"
| "neg_f64 PosInfinity = NegInfinity"
| "neg_f64 NegInfinity = PosInfinity"
| "neg_f64 NaN = NaN"

fun add_f64 :: "number \<Rightarrow> number \<Rightarrow> number" where
  "add_f64 (Finite a) (Finite b) = rnd (a + b)"
| "add_f64 NaN _ = NaN"
| "add_f64 _ NaN = NaN"
| "add_f64 PosInfinity NegInfinity = NaN"
| "add_f64 NegInfinity PosInfinity = NaN"
| "add_f64 PosInfinity _ = PosInfinity"
| "add_f64 _ PosInfinity = PosInfinity"
| "add_f64 NegInfinity _ = NegInfinity"
| "add_f64 _ NegInfinity = NegInfinity"

definition sub_f64 :: "number \<Rightarrow> number \<Rightarrow> number" where
  "sub_f64 a b = add_f64 a (neg_f64 b)"

fun mul_f64 :: "number \<Rightarrow> number \<Rightarrow> number" where
  "mul_f64 (Finite a) (Finite b) = rnd (a * b)"
| "mul_f64 NaN _ = NaN"
| "mul_f64 _ NaN = NaN"
| "mul_f64 (Finite a) PosInfinity = (if a = 0 then NaN else if a > 0 then PosInfinity else NegInfinity)"
| "mul_f64 (Finite a) NegInfinity = (if a = 0 then NaN else if a > 0 then NegInfinity else PosInfinity)"
| "mul_f64 PosInfinity (Finite b) = (if b = 0 then NaN else if b > 0 then PosInfinity else NegInfinity)"
| "mul_f64 NegInfinity (Finite b) = (if b = 0 then NaN else if b > 0 then NegInfinity else PosInfinity)"
| "mul_f64 PosInfinity PosInfinity = PosInfinity"
| "mul_f64 NegInfinity NegInfinity = PosInfinity"
| "mul_f64 PosInfinity NegInfinity = NegInfinity"
| "mul_f64 NegInfinity PosInfinity = NegInfinity"

fun div_f64 :: "number \<Rightarrow> number \<Rightarrow> number" where
  "div_f64 (Finite a) (Finite b) =
     (if b = 0 then (if a = 0 then NaN else if a > 0 then PosInfinity else NegInfinity)
      else rnd (a / b))"
| "div_f64 NaN _ = NaN"
| "div_f64 _ NaN = NaN"
| "div_f64 (Finite a) _ = Finite 0"
| "div_f64 PosInfinity (Finite b) = (if b < 0 then NegInfinity else PosInfinity)"
| "div_f64 NegInfinity (Finite b) = (if b < 0 then PosInfinity else NegInfinity)"
| "div_f64 _ _ = NaN"

fun sqrt_f64 :: "number \<Rightarrow> number" where
  "sqrt_f64 (Finite a) = (if a < 0 then NaN else rnd (sqrt a))"
| "sqrt_f64 PosInfinity = PosInfinity"
| "sqrt_f64 _ = NaN"

fun le_f64 :: "number \<Rightarrow> number \<Rightarrow> bool" where
  "le_f64 (Finite a) (Finite b) = (a \<le> b)"
| "le_f64 NaN _ = False"
| "le_f64 _ NaN = False"
| "le_f64 NegInfinity _ = True"
| "le_f64 _ PosInfinity = True"
| "le_f64 _ _ = False"

definition ge_f64 :: "number \<Rightarrow> number \<Rightarrow> bool" where
  "ge_f64 a b = le_f64 b a"

definition lt_f64 :: "number \<Rightarrow> number \<Rightarrow> bool" where
  "lt_f64 a b \<longleftrightarrow> le_f64 a b \<and> a \<noteq> b"

definition eq_f64 :: "number \<Rightarrow> number \<Rightarrow> bool" where
  "eq_f64 a b \<longleftrightarrow> a = b \<and> \<not> isNaN a"

text \<open>
  \<open>calculateMean\<close> and \<open>calculateCorrelation\<close> in this arithmetic. The guard of the
  correlation keeps both of its tests, \<open>denominator === 0\<close> and \<open>isNaN(denominator)\<close>.
\<close>

definition calculateMean_f64 :: "number list \<Rightarrow> number" where
  "calculateMean_f64 numbers =
     (if length numbers = 0 then Finite 0
      else div_f64 (fold (\<lambda>val acc. add_f64 acc val) numbers (Finite 0))
             (Finite (real (length numbers))))"

definition corr_step_f64 ::
  "number list \<Rightarrow> number list \<Rightarrow> number \<Rightarrow> number \<Rightarrow> nat \<Rightarrow>
   number \<times> number \<times> number \<Rightarrow> number \<times> number \<times> number" where
  "corr_step_f64 x y xMean yMean i acc =
     (case acc of (numerator, denomX, denomY) \<Rightarrow>
        let xDiff = sub_f64 (x ! i) xMean;
            yDiff = sub_f64 (y ! i) yMean
        in (add_f64 numerator (mul_f64 xDiff yDiff),
            add_f64 denomX (mul_f64 xDiff xDiff),
            add_f64 denomY (mul_f64 yDiff yDiff)))"

definition calculateCorrelation_f64 :: "number list \<Rightarrow> number list \<Rightarrow> number" where
  "calculateCorrelation_f64 x y =
     (if length x \<noteq> length y \<or> length x = 0 then Finite 0
      else let xMean = calculateMean_f64 x;
               yMean = calculateMean_f64 y
           in case fold (corr_step_f64 x y xMean yMean) [0..<length x] (Finite 0, Finite 0, Finite 0) of
                (numerator, denomX, denomY) \<Rightarrow>
                  let denominator = sqrt_f64 (mul_f64 denomX denomY)
                  in if eq_f64 denominator (Finite 0) \<or> isNaN denominator then Finite 0
                     else div_f64 numerator denominator)"

text \<open>The number that the literal \<open>0.1\<close> denotes.\<close>

definition tenth :: number where
  "tenth = rnd (1 / 10)"

text \<open>The two classifiers in this arithmetic.\<close>

definition determineGroup_f64 :: "number \<Rightarrow> StudentPerformanceGroup" where
  "determineGroup_f64 percentage =
     (if ge_f64 percentage (Finite 90) then HighAchiever
      else if ge_f64 percentage (Finite 75) then AboveAverage
      else if ge_f64 percentage (Finite 60) then Average
      else if ge_f64 percentage (Finite 50) then BelowAverage
      else AtRisk)"

definition determineGrade_f64 :: "number \<Rightarrow> string" where
  "determineGrade_f64 percentage =
     (if ge_f64 percentage (Finite 90) then ''A''
      else if ge_f64 percentage (Finite 80) then ''B''
      else if ge_f64 percentage (Finite 70) then ''C''
      else if ge_f64 percentage (Finite 60) then ''D''
      else ''F'')"

section \<open>Data model (types.ts)\<close>

text \<open>
  A cell of a raw row is \<open>string | number | undefined | null\<close>. A JavaScript object is an
  association list of its own properties in the order in which \<open>Object.keys\<close> enumerates
  them, each key occurring once; lookup reads the first entry of a key.
\<close>

datatype cell = Str string | Num real | Undefined | Null

type_synonym RawRow = "(string \<times> cell) list"

record StudentData =
  id :: string
  name :: string
  className :: string \<comment> \<open>the field \<open>class\<close>\<close>
  components :: "(string \<times> real) list"
  totalScore :: real
  maxPossibleScore :: real
  percentage :: real
  group :: StudentPerformanceGroup
  originalRow :: RawRow
  sheetName :: string

record ColumnMapping =
  nameCol :: string
  classCol :: string
  componentCols :: "string list"
  totalCol :: "string option" \<comment> \<open>\<open>string | null\<close>\<close>

record AnalysisSummary =
  mean :: real
  median :: real
  mode :: real
  stdDev :: real
  min :: real
  max :: real
  range :: real
  passCount :: nat
  failCount :: nat
  gradeDist :: "(string \<times> nat) list"

record ComponentStat =
  name :: string
  mean :: real
  median :: real
  mode :: real
  stdDev :: real
  min :: real
  max :: real
  correlationWithTotal :: real

text \<open>The object that \<open>performFullAnalysis\<close> returns, and \<open>FullAnalysis\<close>, which adds the students.\<close>

record AnalysisResult =
  summary :: AnalysisSummary
  componentStats :: "ComponentStat list"
  strongestComponent :: string
  weakestComponent :: string

record FullAnalysis =
  summary :: AnalysisSummary
  students :: "StudentData list"
  componentStats :: "ComponentStat list"
  strongestComponent :: string
  weakestComponent :: string

section \<open>Analysis aggregator (performFullAnalysis)\<close>

text \<open>The constant \<open>summary\<close> of \<open>performFullAnalysis\<close>.\<close>

definition summaryOf :: "StudentData list \<Rightarrow> AnalysisSummary" where
  "summaryOf studs =
     (let scores = map percentage studs;
          mean = calculateMean scores
      in \<lparr> AnalysisSummary.mean = mean,
           median = calculateMedian scores,
           mode = calculateMode scores,
           stdDev = calculateStdDev scores mean,
           min = calculateMin scores,
           max = calculateMax scores,
           range = calculateMax scores - calculateMin scores,
           passCount = length (filter (\<lambda>s. percentage s \<ge> 60) studs),
           failCount = length (filter (\<lambda>s. percentage s < 60) studs),
           gradeDist =
             [(''A'', length (filter (\<lambda>s. determineGrade (percentage s) = ''A'') studs)),
              (''B'', length (filter (\<lambda>s. determineGrade (percentage s) = ''B'') studs)),
              (''C'', length (filter (\<lambda>s. determineGrade (percentage s) = ''C'') studs)),
              (''D'', length (filter (\<lambda>s. determineGrade (percentage s) = ''D'') studs)),
              (''F'', length (filter (\<lambda>s. determineGrade (percentage s) = ''F'') studs))] \<rparr>)"

text \<open>\<open>Object.keys(students[0]?.components || {})\<close>\<close>

definition componentKeysOf :: "StudentData list \<Rightarrow> string list" where
  "componentKeysOf studs = (case studs of [] \<Rightarrow> [] | s0 # _ \<Rightarrow> map fst (components s0))"

text \<open>
  \<open>students.map(s => s.components[key])\<close>. Where a student lacks the key, JavaScript reads
  \<open>undefined\<close> and every statistic of the component becomes \<open>NaN\<close>, which is no real number:
  the model then has no value (\<open>None\<close>).
\<close>

definition compScoresOf :: "StudentData list \<Rightarrow> string \<Rightarrow> real list option" where
  "compScoresOf studs key = those (map (\<lambda>s. map_of (components s) key) studs)"

definition componentStatOf :: "StudentData list \<Rightarrow> string \<Rightarrow> ComponentStat option" where
  "componentStatOf studs key =
     (case compScoresOf studs key of
        None \<Rightarrow> None
      | Some compScores \<Rightarrow>
          let scores = map percentage studs;
              compMean = calculateMean compScores
          in Some \<lparr> ComponentStat.name = key,
                    mean = compMean,
                    median = calculateMedian compScores,
                    mode = calculateMode compScores,
                    stdDev = calculateStdDev compScores compMean,
                    min = calculateMin compScores,
                    max = calculateMax compScores,
                    correlationWithTotal = calculateCorrelation compScores scores \<rparr>)"

definition componentStatsOf :: "StudentData list \<Rightarrow> ComponentStat list option" where
  "componentStatsOf studs = those (map (componentStatOf studs) (componentKeysOf studs))"

text \<open>\<open>[...componentStats].sort((a, b) => b.mean - a.mean)\<close>\<close>

definition sortedComponentsOf :: "ComponentStat list \<Rightarrow> ComponentStat list" where
  "sortedComponentsOf stats = sortBy (\<lambda>a b. ComponentStat.mean b - ComponentStat.mean a) stats"

text \<open>
  \<open>c?.name || 'N/A'\<close> for an element \<open>c\<close> read from the sorted array: \<open>'N/A'\<close> when the read
  is out of range, and also when the name is the empty string, which is falsy.
\<close>

definition nameOrNA :: "ComponentStat option \<Rightarrow> string" where
  "nameOrNA c =
     (case c of
        None \<Rightarrow> ''N/A''
      | Some c' \<Rightarrow> if ComponentStat.name c' = [] then ''N/A'' else ComponentStat.name c')"

definition performFullAnalysis :: "StudentData list \<Rightarrow> AnalysisResult option" where
  "performFullAnalysis studs =
     (case componentStatsOf studs of
        None \<Rightarrow> None
      | Some stats \<Rightarrow>
          let sortedComponents = sortedComponentsOf stats
          in Some \<lparr> AnalysisResult.summary = summaryOf studs,
                    componentStats = stats,
                    strongestComponent =
                      nameOrNA (if sortedComponents = [] then None
                                else Some (sortedComponents ! 0)),
                    weakestComponent =
                      nameOrNA (if sortedComponents = [] then None
                                else Some (sortedComponents ! (length sortedComponents - 1))) \<rparr>)"

section \<open>Strings and objects of the language\<close>

text \<open>
  A JavaScript string is modelled as a HOL \<^typ>\<open>string\<close>, each \<^typ>\<open>char\<close> standing for one
  code unit below 256 (the Latin-1 range). On that range \<open>trim\<close> removes the white space and
  line terminator characters 9 to 13, 32 and 160, and \<open>toLowerCase\<close> maps \<open>A\<close> to \<open>Z\<close> and the
  letters 192 to 222 other than 215 to the character 32 places further on.
\<close>

definition isWhiteSpace :: "char \<Rightarrow> bool" where
  "isWhiteSpace c \<longleftrightarrow> (of_char c :: nat) \<in> {9, 10, 11, 12, 13, 32, 160}"

definition trim :: "string \<Rightarrow> string" where
  "trim s = rev (dropWhile isWhiteSpace (rev (dropWhile isWhiteSpace s)))"

definition toLowerChar :: "char \<Rightarrow> char" where
  "toLowerChar c =
     (let n = (of_char c :: nat)
      in if (65 \<le> n \<and> n \<le> 90) \<or> (192 \<le> n \<and> n \<le> 222 \<and> n \<noteq> 215) then char_of (n + 32) else c)"

definition toLowerCase :: "string \<Rightarrow> string" where
  "toLowerCase s = map toLowerChar s"

definition isDigit :: "char \<Rightarrow> bool" where
  "isDigit c \<longleftrightarrow> 48 \<le> (of_char c :: nat) \<and> (of_char c :: nat) \<le> 57"

definition digitsVal :: "string \<Rightarrow> nat" where
  "digitsVal ds = foldl (\<lambda>n c. 10 * n + (of_char c - 48)) 0 ds"

text \<open>The decimal numeral of a natural number, as a template literal prints an array index.\<close>

fun showNat :: "nat \<Rightarrow> string" where
  "showNat n = (if n < 10 then [char_of (48 + n)] else showNat (n div 10) @ [char_of (48 + n mod 10)])"

declare showNat.simps [simp del]

text \<open>
  \<open>parseFloat\<close> skips leading white space and reads the longest prefix that is a decimal
  literal: an optional sign, digits with an optional fraction (or a fraction alone), and an
  exponent when digits follow the \<open>e\<close>. The result \<open>None\<close> stands for \<open>NaN\<close>. The literal
  \<open>Infinity\<close> has no real value and is not recognised by the model.
\<close>

definition exponentOf :: "string \<Rightarrow> int" where
  "exponentOf rest =
     (case rest of
        [] \<Rightarrow> 0
      | c # r \<Rightarrow>
          if c = CHR ''e'' \<or> c = CHR ''E'' then
            (let (neg, d) = (case r of
                               [] \<Rightarrow> (False, r)
                             | c' # r' \<Rightarrow> if c' = CHR ''-'' then (True, r')
                                          else if c' = CHR ''+'' then (False, r') else (False, r));
                 ds = takeWhile isDigit d
             in if ds = [] then 0 else if neg then - int (digitsVal ds) else int (digitsVal ds))
          else 0)"

definition parseFloat :: "string \<Rightarrow> real option" where
  "parseFloat s =
     (let t = dropWhile isWhiteSpace s;
          (neg, u) = (case t of
                        [] \<Rightarrow> (False, t)
                      | c # r \<Rightarrow> if c = CHR ''-'' then (True, r)
                                 else if c = CHR ''+'' then (False, r) else (False, t));
          intDigits = takeWhile isDigit u;
          afterInt = dropWhile isDigit u;
          (fracDigits, afterFrac) =
            (case afterInt of
               [] \<Rightarrow> ([], afterInt)
             | c # r \<Rightarrow> if c = CHR ''.'' then (takeWhile isDigit r, dropWhile isDigit r)
                        else ([], afterInt))
      in if intDigits = [] \<and> fracDigits = [] then None
         else let mantissa = real (digitsVal intDigits) +
                             real (digitsVal fracDigits) / 10 ^ length fracDigits
              in Some ((if neg then - 1 else 1) * mantissa * 10 powi exponentOf afterFrac))"

text \<open>Truthiness of a cell, as \<open>v ? a : b\<close> and \<open>v || d\<close> test it.\<close>

fun truthy :: "cell \<Rightarrow> bool" where
  "truthy (Str s) = (s \<noteq> [])"
| "truthy (Num r) = (r \<noteq> 0)"
| "truthy Undefined = False"
| "truthy Null = False"

text \<open>
  \<open>String(v)\<close>. The printing of a number is a function of the language that the model takes as
  the parameter \<open>numToString\<close>.
\<close>

fun toString :: "(real \<Rightarrow> string) \<Rightarrow> cell \<Rightarrow> string" where
  "toString numToString (Str s) = s"
| "toString numToString (Num r) = numToString r"
| "toString numToString Undefined = ''undefined''"
| "toString numToString Null = ''null''"

text \<open>
  \<open>parseFloat(String(v))\<close>. \<open>String\<close> prints a number with the digits that read back as the
  same number, so for a numeric cell the result is the number itself.
\<close>

fun parseFloatOfString :: "cell \<Rightarrow> real option" where
  "parseFloatOfString (Str s) = parseFloat s"
| "parseFloatOfString (Num r) = Some r"
| "parseFloatOfString Undefined = parseFloat ''undefined''"
| "parseFloatOfString Null = parseFloat ''null''"

text \<open>
  Assignment \<open>obj[k] = v\<close>: an existing property keeps its place; a new property whose key
  is an array index (a canonical numeral below \<open>2^32 - 1\<close>) is enumerated among the index
  keys in ascending order, any other new key after all existing keys.
\<close>

definition isArrayIndex :: "string \<Rightarrow> bool" where
  "isArrayIndex k \<longleftrightarrow>
     k \<noteq> [] \<and> list_all isDigit k \<and> (k = ''0'' \<or> hd k \<noteq> CHR ''0'') \<and> digitsVal k < 2 ^ 32 - 1"

fun insertIndexKey :: "string \<Rightarrow> 'v \<Rightarrow> (string \<times> 'v) list \<Rightarrow> (string \<times> 'v) list" where
  "insertIndexKey k v [] = [(k, v)]"
| "insertIndexKey k v ((k', v') # obj) =
     (if isArrayIndex k' \<and> digitsVal k' < digitsVal k then (k', v') # insertIndexKey k v obj
      else (k, v) # (k', v') # obj)"

definition objSet :: "string \<Rightarrow> 'v \<Rightarrow> (string \<times> 'v) list \<Rightarrow> (string \<times> 'v) list" where
  "objSet k v obj =
     (if k \<in> fst ` set obj then AList.update k v obj
      else if isArrayIndex k then insertIndexKey k v obj
      else obj @ [(k, v)])"

text \<open>\<open>row[k]\<close> for a raw row: \<open>undefined\<close> when the row has no such property.\<close>

definition getProp :: "RawRow \<Rightarrow> string \<Rightarrow> cell" where
  "getProp row k = (case map_of row k of None \<Rightarrow> Undefined | Some v \<Rightarrow> v)"

section \<open>Row normalizer (App.tsx)\<close>

text \<open>
  \<open>getSmartValue\<close>: the exact key first, then the first key that equals the column name
  after lower-casing and trimming both. \<open>if (foundKey)\<close> rejects the empty key.
\<close>

definition getSmartValue :: "RawRow \<Rightarrow> string \<Rightarrow> cell" where
  "getSmartValue row colName =
     (if colName \<in> fst ` set row then getProp row colName
      else let lowerColName = trim (toLowerCase colName);
               foundKey = find (\<lambda>k. trim (toLowerCase k) = lowerColName) (map fst row)
           in case foundKey of
                Some k \<Rightarrow> if k \<noteq> [] then getProp row k else Undefined
              | None \<Rightarrow> Undefined)"

text \<open>\<open>const name = rawName ? String(rawName) : ''\<close>\<close>

definition resolvedName :: "(real \<Rightarrow> string) \<Rightarrow> ColumnMapping \<Rightarrow> RawRow \<Rightarrow> string" where
  "resolvedName numToString mapping row =
     (let rawName = getSmartValue row (nameCol mapping)
      in if truthy rawName then toString numToString rawName else [])"

text \<open>
  The body of \<open>mapping.componentCols.forEach\<close>, on the pair of the \<open>components\<close> object and
  \<open>sumComponents\<close>.
\<close>

definition componentStep ::
  "RawRow \<Rightarrow> string \<Rightarrow> (string \<times> real) list \<times> real \<Rightarrow> (string \<times> real) list \<times> real" where
  "componentStep row col acc =
     (let (components, sumComponents) = acc;
          rawVal = getSmartValue row col;
          val = parseFloatOfString (if truthy rawVal then rawVal else Str ''0'');
          cleanVal = (case val of None \<Rightarrow> 0 | Some v \<Rightarrow> v)
      in (objSet col cleanVal components, sumComponents + cleanVal))"

text \<open>The function mapped over \<open>allRows\<close>: one row and its index give one student record.\<close>

definition normalizeRow :: "(real \<Rightarrow> string) \<Rightarrow> ColumnMapping \<Rightarrow> RawRow \<Rightarrow> nat \<Rightarrow> StudentData" where
  "normalizeRow numToString mapping row idx =
     (let name = resolvedName numToString mapping row;
          sheetSource = getProp row ''SheetSource'';
          sheetName = toString numToString (if truthy sheetSource then sheetSource else Str ''Unknown'');
          className =
            (if classCol mapping \<noteq> [] then
               (let rawClass = getSmartValue row (classCol mapping)
                in if truthy rawClass then toString numToString rawClass else sheetName)
             else sheetName);
          (components, sumComponents) = fold (componentStep row) (componentCols mapping) ([], 0);
          total =
            (case totalCol mapping of
               None \<Rightarrow> sumComponents
             | Some tc \<Rightarrow>
                 if tc \<noteq> [] then
                   (case parseFloatOfString (getSmartValue row tc) of
                      Some tVal \<Rightarrow> tVal
                    | None \<Rightarrow> sumComponents)
                 else sumComponents)
      in \<lparr> id = ''s-'' @ sheetName @ ''-'' @ showNat idx,
           name = name,
           className = className,
           components = components,
           totalScore = total,
           maxPossibleScore = 100,
           percentage = total,
           group = determineGroup total,
           originalRow = row,
           sheetName = sheetName \<rparr>)"

text \<open>\<open>allRows.map((row, idx) => ...).filter(student => student.name && student.name.trim() !== '')\<close>\<close>

definition processRows :: "(real \<Rightarrow> string) \<Rightarrow> ColumnMapping \<Rightarrow> RawRow list \<Rightarrow> StudentData list" where
  "processRows numToString mapping allRows =
     filter (\<lambda>student. StudentData.name student \<noteq> [] \<and> trim (StudentData.name student) \<noteq> [])
       (map (\<lambda>(idx, row). normalizeRow numToString mapping row idx) (enumerate 0 allRows))"

text \<open>The rows of the selected sheets, in order, each tagged with \<open>SheetSource\<close>.\<close>

definition allRowsOf :: "(string \<rightharpoonup> RawRow list) \<Rightarrow> string list \<Rightarrow> RawRow list" where
  "allRowsOf rawSheetData selectedSheetNames =
     fold (\<lambda>sheet allRows.
             allRows @ map (\<lambda>r. objSet ''SheetSource'' (Str sheet) r)
                         (case rawSheetData sheet of None \<Rightarrow> [] | Some rows \<Rightarrow> rows))
       selectedSheetNames []"

text \<open>The state of the component \<open>App\<close> that \<open>onMappingConfirmed\<close> reads and writes.\<close>

record AppState =
  step :: nat
  rawSheetData :: "string \<rightharpoonup> RawRow list"
  selectedSheetNames :: "string list"
  allStudents :: "StudentData list"
  sheetFilter :: string
  totalColName :: string

definition onMappingConfirmed :: "(real \<Rightarrow> string) \<Rightarrow> ColumnMapping \<Rightarrow> AppState \<Rightarrow> AppState" where
  "onMappingConfirmed numToString mapping st =
     (let allRows = allRowsOf (rawSheetData st) (selectedSheetNames st);
          processedStudents = processRows numToString mapping allRows
      in st\<lparr> totalColName := (case totalCol mapping of
                                None \<Rightarrow> ''Overall Score''
                              | Some tc \<Rightarrow> if tc \<noteq> [] then tc else ''Overall Score''),
             allStudents := processedStudents,
             sheetFilter := ''All'',
             step := 4 \<rparr>)"

section \<open>The normalizer and the summary counts in double precision\<close>

text \<open>
  A student record whose numbers are doubles, and the fields \<open>passCount\<close>, \<open>failCount\<close> and
  \<open>gradeDist\<close> of the summary that \<open>performFullAnalysis\<close> builds, which only compare
  percentages.
\<close>

record StudentData_f64 =
  id_f64 :: string
  name_f64 :: string
  className_f64 :: string
  components_f64 :: "(string \<times> number) list"
  totalScore_f64 :: number
  maxPossibleScore_f64 :: number
  percentage_f64 :: number
  group_f64 :: StudentPerformanceGroup
  originalRow_f64 :: RawRow
  sheetName_f64 :: string

definition passCount_f64 :: "StudentData_f64 list \<Rightarrow> nat" where
  "passCount_f64 studs = length (filter (\<lambda>s. ge_f64 (percentage_f64 s) (Finite 60)) studs)"

definition failCount_f64 :: "StudentData_f64 list \<Rightarrow> nat" where
  "failCount_f64 studs = length (filter (\<lambda>s. lt_f64 (percentage_f64 s) (Finite 60)) studs)"

definition gradeDist_f64 :: "StudentData_f64 list \<Rightarrow> (string \<times> nat) list" where
  "gradeDist_f64 studs =
     [(''A'', length (filter (\<lambda>s. determineGrade_f64 (percentage_f64 s) = ''A'') studs)),
      (''B'', length (filter (\<lambda>s. determineGrade_f64 (percentage_f64 s) = ''B'') studs)),
      (''C'', length (filter (\<lambda>s. determineGrade_f64 (percentage_f64 s) = ''C'') studs)),
      (''D'', length (filter (\<lambda>s. determineGrade_f64 (percentage_f64 s) = ''D'') studs)),
      (''F'', length (filter (\<lambda>s. determineGrade_f64 (percentage_f64 s) = ''F'') studs))]"

text \<open>
  \<open>parseFloat\<close> with the literal \<open>Infinity\<close>, and the value of a decimal literal rounded to
  a double, so that a literal beyond the largest double is an infinity. A numeric cell
  holds a double.
\<close>

definition parseFloat_f64 :: "string \<Rightarrow> number" where
  "parseFloat_f64 s =
     (let t = dropWhile isWhiteSpace s;
          (neg, u) = (case t of
                        [] \<Rightarrow> (False, t)
                      | c # r \<Rightarrow> if c = CHR ''-'' then (True, r)
                                 else if c = CHR ''+'' then (False, r) else (False, t))
      in if take 8 u = ''Infinity'' then (if neg then NegInfinity else PosInfinity)
         else (case parseFloat s of None \<Rightarrow> NaN | Some r \<Rightarrow> rnd r))"

fun parseFloatOfString_f64 :: "cell \<Rightarrow> number" where
  "parseFloatOfString_f64 (Str s) = parseFloat_f64 s"
| "parseFloatOfString_f64 (Num r) = rnd r"
| "parseFloatOfString_f64 Undefined = parseFloat_f64 ''undefined''"
| "parseFloatOfString_f64 Null = parseFloat_f64 ''null''"

text \<open>
  The row normalizer in this arithmetic: \<open>isNaN(val) ? 0 : val\<close> keeps an infinite component,
  and the sum of \<open>Infinity\<close> and \<open>-Infinity\<close> is \<open>NaN\<close>.
\<close>

definition componentStep_f64 ::
  "RawRow \<Rightarrow> string \<Rightarrow> (string \<times> number) list \<times> number \<Rightarrow> (string \<times> number) list \<times> number" where
  "componentStep_f64 row col acc =
     (let (components, sumComponents) = acc;
          rawVal = getSmartValue row col;
          val = parseFloatOfString_f64 (if truthy rawVal then rawVal else Str ''0'');
          cleanVal = (if isNaN val then Finite 0 else val)
      in (objSet col cleanVal components, add_f64 sumComponents cleanVal))"

definition normalizeRow_f64 ::
  "(real \<Rightarrow> string) \<Rightarrow> ColumnMapping \<Rightarrow> RawRow \<Rightarrow> nat \<Rightarrow> StudentData_f64" where
  "normalizeRow_f64 numToString mapping row idx =
     (let name = resolvedName numToString mapping row;
          sheetSource = getProp row ''SheetSource'';
          sheetName = toString numToString (if truthy sheetSource then sheetSource else Str ''Unknown'');
          className =
            (if classCol mapping \<noteq> [] then
               (let rawClass = getSmartValue row (classCol mapping)
                in if truthy rawClass then toString numToString rawClass else sheetName)
             else sheetName);
          (components, sumComponents) =
            fold (componentStep_f64 row) (componentCols mapping) ([], Finite 0);
          total =
            (case totalCol mapping of
               None \<Rightarrow> sumComponents
             | Some tc \<Rightarrow>
                 if tc \<noteq> [] then
                   (let tVal = parseFloatOfString_f64 (getSmartValue row tc)
                    in if \<not> isNaN tVal then tVal else sumComponents)
                 else sumComponents)
      in \<lparr> id_f64 = ''s-'' @ sheetName @ ''-'' @ showNat idx,
           name_f64 = name,
           className_f64 = className,
           components_f64 = components,
           totalScore_f64 = total,
           maxPossibleScore_f64 = Finite 100,
           percentage_f64 = total,
           group_f64 = determineGroup_f64 total,
           originalRow_f64 = row,
           sheetName_f64 = sheetName \<rparr>)"

definition processRows_f64 ::
  "(real \<Rightarrow> string) \<Rightarrow> ColumnMapping \<Rightarrow> RawRow list \<Rightarrow> StudentData_f64 list" where
  "processRows_f64 numToString mapping allRows =
     filter (\<lambda>student. name_f64 student \<noteq> [] \<and> trim (name_f64 student) \<noteq> [])
       (map (\<lambda>(idx, row). normalizeRow_f64 numToString mapping row idx) (enumerate 0 allRows))"

section \<open>The narrative request (services/geminiService)\<close>

text \<open>
  \<open>generateEducationalActionPlan\<close> sends one request: the model name, the prompt as its
  contents, and the response MIME type. \<open>toFixed\<close> is a function of the language and is a
  parameter of the model (\<open>toFixed x d\<close> for \<open>x.toFixed(d)\<close>). The pass rate divides by
  \<open>passCount + failCount\<close>; when that is 0 the quotient is \<open>NaN\<close>, which prints as \<open>NaN\<close>.
\<close>

record GenerateContentRequest =
  model :: string
  contents :: string
  responseMimeType :: string

definition nl :: string where
  "nl = [CHR 0x0A]"

definition join :: "string \<Rightarrow> string list \<Rightarrow> string" where
  "join sep parts = (case parts of [] \<Rightarrow> [] | p # ps \<Rightarrow> p @ concat (map (\<lambda>q. sep @ q) ps))"

definition componentLine :: "(real \<Rightarrow> nat \<Rightarrow> string) \<Rightarrow> ComponentStat \<Rightarrow> string" where
  "componentLine toFixed c =
     ''- '' @ ComponentStat.name c @ '': Mean '' @ toFixed (ComponentStat.mean c) 1 @
     '', Correlation '' @ toFixed (correlationWithTotal c) 2"

definition passRateText :: "(real \<Rightarrow> nat \<Rightarrow> string) \<Rightarrow> AnalysisSummary \<Rightarrow> string" where
  "passRateText toFixed s =
     (if passCount s + failCount s = 0 then ''NaN''
      else toFixed (real (passCount s) / real (passCount s + failCount s) * 100) 1)"

definition prompt :: "(real \<Rightarrow> nat \<Rightarrow> string) \<Rightarrow> FullAnalysis \<Rightarrow> string" where
  \<open>prompt toFixed analysis = concat
     [nl,
      ''    Role: Educational Data Analyst Expert.'', nl,
      ''    Task: Analyze the following academic data summary and generate specific, actionable educational plans.'', nl,
      ''    '', nl,
      ''    Data Summary:'', nl,
      ''    - Overall Mean Score: '', toFixed (AnalysisSummary.mean (FullAnalysis.summary analysis)) 1, ''%'', nl,
      ''    - Standard Deviation: '', toFixed (AnalysisSummary.stdDev (FullAnalysis.summary analysis)) 1, nl,
      ''    - Pass Rate: '', passRateText toFixed (FullAnalysis.summary analysis), ''%'', nl,
      ''    - Failing Students: '', showNat (failCount (FullAnalysis.summary analysis)), nl,
      ''    - Strongest Component: '', FullAnalysis.strongestComponent analysis, nl,
      ''    - Weakest Component: '', FullAnalysis.weakestComponent analysis, nl,
      ''    '', nl,
      ''    Component Details (Correlation with Final Grade):'', nl,
      ''    '', join nl (map (componentLine toFixed) (FullAnalysis.componentStats analysis)), nl,
      nl,
      ''    Please output a JSON object with the following keys. Each value should be a detailed Markdown string.'', nl,
      ''    1. "highAchieverPlan": Enrichment, competitions, leadership.'', nl,
      ''    2. "averageStudentPlan": Consolidation, practice, movement to next level.'', nl,
      ''    3. "atRiskPlan": Remediation, parent intervention, foundational steps.'', nl,
      ''    4. "teacherActions": Pedagogy changes, grouping strategies, what to reteach next week.'', nl,
      ''    5. "hodInsights": Curriculum gaps, teacher PD needs, strategic changes for the department.'', nl,
      nl,
      ''    Make the advice specific to the data provided (e.g., if correlation is high for a specific component, mention it).'', nl,
      ''    Ensure the JSON is valid. Do not wrap in markdown code blocks. Just the raw JSON string.'', nl,
      ''  '']\<close>

definition generateContentRequest :: "(real \<Rightarrow> nat \<Rightarrow> string) \<Rightarrow> FullAnalysis \<Rightarrow> GenerateContentRequest" where
  "generateContentRequest toFixed analysis =
     \<lparr> model = ''gemini-2.5-flash'',
       contents = prompt toFixed analysis,
       responseMimeType = ''application/json'' \<rparr>"

section \<open>Reference definitions from the specification\<close>

text \<open>
  The specification's words for the correlation: the arithmetic mean, the (population)
  variance, and the Pearson product-moment correlation coefficient, the sum of the products
  of the deviations over the product of the square roots of the sums of squared deviations.
  They are compared with the loop of \<open>calculateCorrelation\<close> below.
\<close>

definition arithmeticMean :: "real list \<Rightarrow> real" where
  "arithmeticMean xs = sum_list xs / real (length xs)"

definition variance :: "real list \<Rightarrow> real" where
  "variance xs = (\<Sum>x\<leftarrow>xs. (x - arithmeticMean xs) ^ 2) / real (length xs)"

definition pearson :: "real list \<Rightarrow> real list \<Rightarrow> real" where
  "pearson xs ys =
     (\<Sum>(x, y)\<leftarrow>zip xs ys. (x - arithmeticMean xs) * (y - arithmeticMean ys)) /
     (sqrt (\<Sum>x\<leftarrow>xs. (x - arithmeticMean xs) ^ 2) *
      sqrt (\<Sum>y\<leftarrow>ys. (y - arithmeticMean ys) ^ 2))"


text \<open>
  The claim's words for the selection of a component: a component has the maximum (minimum)
  mean when no component of the list has a greater (smaller) one, and among the components
  that tie on it the first, or the last, in enumeration order is taken.
\<close>

definition hasMaxMean :: "ComponentStat list \<Rightarrow> ComponentStat \<Rightarrow> bool" where
  "hasMaxMean cs c = list_all (\<lambda>d. ComponentStat.mean d \<le> ComponentStat.mean c) cs"

definition hasMinMean :: "ComponentStat list \<Rightarrow> ComponentStat \<Rightarrow> bool" where
  "hasMinMean cs c = list_all (\<lambda>d. ComponentStat.mean c \<le> ComponentStat.mean d) cs"

definition firstWithMaxMean :: "ComponentStat list \<Rightarrow> ComponentStat option" where
  "firstWithMaxMean cs = find (hasMaxMean cs) cs"

definition firstWithMinMean :: "ComponentStat list \<Rightarrow> ComponentStat option" where
  "firstWithMinMean cs = find (hasMinMean cs) cs"

definition lastWithMinMean :: "ComponentStat list \<Rightarrow> ComponentStat option" where
  "lastWithMinMean cs = find (hasMinMean cs) (rev cs)"

section \<open>Example inputs\<close>

definition exampleStudent :: "nat \<Rightarrow> string \<Rightarrow> (string \<times> real) list \<Rightarrow> real \<Rightarrow> StudentData" where
  "exampleStudent idx n comps score =
     \<lparr> id = ''s-Term1-'' @ showNat idx, name = n, className = ''Term1'', components = comps,
       totalScore = score, maxPossibleScore = 100, percentage = score,
       group = determineGroup score, originalRow = [], sheetName = ''Term1'' \<rparr>"

text \<open>Two components with the same mean.\<close>

definition tieStudent :: StudentData where
  "tieStudent = exampleStudent 0 ''Ann'' [(''A'', 50), (''B'', 50)] 100"

text \<open>The component \<open>Quiz\<close> has mean 90 and the component \<open>Exam\<close> has mean 60.\<close>

definition quizExamStudents :: "StudentData list" where
  "quizExamStudents =
     [exampleStudent 0 ''Ann'' [(''Quiz'', 100), (''Exam'', 70)] 85,
      exampleStudent 1 ''Bob'' [(''Quiz'', 80), (''Exam'', 50)] 65]"

definition junkMapping :: ColumnMapping where
  "junkMapping =
     \<lparr> nameCol = ''Name'', classCol = [], componentCols = [''Quiz1'', ''Quiz2''], totalCol = None \<rparr>"




text \<open>
  Five rows: a name, no name column, a name under a key that matches only after
  lower-casing and trimming, a blank name, and the number 0 as name.
\<close>

definition nameRows :: "RawRow list" where
  "nameRows =
     [[(''Name'', Str ''Ann''), (''Quiz1'', Num 40)],
      [(''Quiz1'', Num 70)],
      [(''NAME '', Str ''Bob''), (''Quiz1'', Num 55)],
      [(''Name'', Str ''   ''), (''Quiz1'', Num 90)],
      [(''Name'', Num 0), (''Quiz1'', Num 90)]]"

text \<open>
  A row of the sheet \<open>Term1\<close> whose two component cells are the strings \<open>Infinity\<close> and
  \<open>-Infinity\<close>, and the record that the normalizer makes of it.
\<close>

definition infinityRow :: RawRow where
  "infinityRow =
     [(''Name'', Str ''Ann''), (''Quiz1'', Str ''Infinity''), (''Quiz2'', Str ''-Infinity''),
      (''SheetSource'', Str ''Term1'')]"

definition nanStudent :: StudentData_f64 where
  "nanStudent =
     \<lparr> id_f64 = ''s-Term1-0'', name_f64 = ''Ann'', className_f64 = ''Term1'',
       components_f64 = [(''Quiz1'', PosInfinity), (''Quiz2'', NegInfinity)],
       totalScore_f64 = NaN, maxPossibleScore_f64 = Finite 100, percentage_f64 = NaN,
       group_f64 = AtRisk, originalRow_f64 = infinityRow, sheetName_f64 = ''Term1'' \<rparr>"

definition exampleStudent_f64 :: "nat \<Rightarrow> string \<Rightarrow> number \<Rightarrow> StudentData_f64" where
  "exampleStudent_f64 idx n score =
     \<lparr> id_f64 = ''s-Term1-'' @ showNat idx, name_f64 = n, className_f64 = ''Term1'',
       components_f64 = [], totalScore_f64 = score, maxPossibleScore_f64 = Finite 100,
       percentage_f64 = score, group_f64 = determineGroup_f64 score, originalRow_f64 = [],
       sheetName_f64 = ''Term1'' \<rparr>"

definition threeStudents :: "StudentData_f64 list" where
  "threeStudents =
     [exampleStudent_f64 0 ''Ann'' (Finite 95), exampleStudent_f64 1 ''Bob'' (Finite 65),
      exampleStudent_f64 2 ''Cy'' (Finite 40)]"

definition analysisOf :: "StudentData list \<Rightarrow> FullAnalysis" where
  "analysisOf studs =
     \<lparr> FullAnalysis.summary = summaryOf quizExamStudents,
       students = studs,
       componentStats = [],
       strongestComponent = ''Quiz'',
       weakestComponent = ''Exam'' \<rparr>"

section \<open>Properties of the statistics primitives\<close>

lemma fold_add_sum_list: "fold (\<lambda>val acc. acc + val) xs (a::real) = a + sum_list xs"
  by (induction xs arbitrary: a) simp_all

lemma calculateMean_sum_list:
  "xs \<noteq> [] \<Longrightarrow> calculateMean xs = sum_list xs / real (length xs)"
  by (simp add: calculateMean_def fold_add_sum_list)

lemma calculateMean_arithmeticMean: "xs \<noteq> [] \<Longrightarrow> calculateMean xs = arithmeticMean xs"
  by (simp add: calculateMean_sum_list arithmeticMean_def)

text \<open>
  Claim C7. \<open>calculateMean\<close>, \<open>calculateMedian\<close>, \<open>calculateMode\<close>, \<open>calculateStdDev\<close>
  (whatever mean is supplied), \<open>calculateMin\<close> and \<open>calculateMax\<close> each return 0 on the empty
  sequence. The functions are total: there is no error outcome.
\<close>

theorem empty_sequence_sentinel:
  "calculateMean [] = 0 \<and> calculateMedian [] = 0 \<and> calculateMode [] = 0 \<and>
   calculateStdDev [] m = 0 \<and> calculateMin [] = 0 \<and> calculateMax [] = 0"
  by (simp add: calculateMean_def calculateMedian_def calculateMode_def calculateStdDev_def
      calculateMin_def calculateMax_def)

text \<open>
  Claim C6. For a non-empty sequence \<open>xs\<close> of length \<open>N\<close> and any supplied mean \<open>m\<close>,
  \<open>calculateStdDev xs m\<close> is the population standard deviation: the square root of the sum of
  the squared differences from \<open>m\<close> divided by \<open>N\<close> (not by \<open>N - 1\<close>); and
  \<open>calculateStdDev [2,4,4,4,5,5,7,9] 5 = 2\<close>.
\<close>

theorem calculateStdDev_population:
  "(xs \<noteq> [] \<longrightarrow>
      calculateStdDev xs m = sqrt ((\<Sum>x\<leftarrow>xs. (x - m) ^ 2) / real (length xs))) \<and>
   calculateStdDev [2, 4, 4, 4, 5, 5, 7, 9] 5 = 2"
proof
  show "xs \<noteq> [] \<longrightarrow> calculateStdDev xs m = sqrt ((\<Sum>x\<leftarrow>xs. (x - m) ^ 2) / real (length xs))"
    by (simp add: calculateStdDev_def calculateMean_sum_list)
next
  have "calculateStdDev [2, 4, 4, 4, 5, 5, 7, 9] 5 = sqrt 4"
    by (simp add: calculateStdDev_def calculateMean_def)
  then show "calculateStdDev [2, 4, 4, 4, 5, 5, 7, 9] 5 = 2"
    by simp
qed

theorem calculateStdDev_population_witness:
  "[1, 3] \<noteq> ([] :: real list) \<and> calculateStdDev [1, 3] 2 = 1"
  using calculateStdDev_population [of "[1, 3]" 2] by simp

subsection \<open>The correlation loop\<close>

lemma corr_fold:
  "fold (corr_step x y xm ym) [0..<n] (a, b, c) =
     (a + (\<Sum>i<n. (x ! i - xm) * (y ! i - ym)),
      b + (\<Sum>i<n. (x ! i - xm) * (x ! i - xm)),
      c + (\<Sum>i<n. (y ! i - ym) * (y ! i - ym)))"
  by (induction n) (simp_all add: corr_step_def Let_def add.assoc)

lemma sum_list_nth_lessThan: "sum_list (map f xs) = (\<Sum>i<length xs. f (xs ! i))"
proof -
  have "sum_list (map f xs) = (\<Sum>i = 0..<length (map f xs). map f xs ! i)"
    by (rule sum_list_sum_nth)
  also have "\<dots> = (\<Sum>i<length xs. f (xs ! i))"
    by (simp add: atLeast0LessThan)
  finally show ?thesis .
qed

lemma sum_list_zip_lessThan:
  "length xs = length ys \<Longrightarrow>
   (\<Sum>(x, y)\<leftarrow>zip xs ys. f x y) = (\<Sum>i<length xs. f (xs ! i) (ys ! i))"
  using sum_list_nth_lessThan [of "\<lambda>(x, y). f x y" "zip xs ys"] by simp

lemma corr_loop:
  assumes "length x = length y"
  shows "fold (corr_step x y xm ym) [0..<length x] (0, 0, 0) =
     ((\<Sum>(a, b)\<leftarrow>zip x y. (a - xm) * (b - ym)),
      (\<Sum>a\<leftarrow>x. (a - xm) ^ 2),
      (\<Sum>b\<leftarrow>y. (b - ym) ^ 2))"
  using assms
  by (simp add: corr_fold sum_list_zip_lessThan sum_list_nth_lessThan power2_eq_square)

lemma sum_sq_zero_iff: "(\<Sum>x\<leftarrow>xs. (x - m) ^ 2 :: real) = 0 \<longleftrightarrow> (\<forall>x\<in>set xs. x = m)"
  by (subst sum_list_nonneg_eq_0_iff) auto

lemma all_equal_mean:
  assumes "xs \<noteq> []" "\<forall>x\<in>set xs. x = c"
  shows "arithmeticMean xs = c"
proof -
  have "map (\<lambda>x. c) xs = xs" using assms(2) by (simp add: map_idI)
  then have "sum_list xs = sum_list (map (\<lambda>x. c) xs)" by simp
  also have "\<dots> = real (length xs) * c" by (simp add: sum_list_triv)
  finally show ?thesis using assms(1) by (simp add: arithmeticMean_def)
qed

lemma variance_zero_iff:
  assumes "xs \<noteq> []"
  shows "variance xs = 0 \<longleftrightarrow> (\<forall>x\<in>set xs. x = hd xs)"
proof
  assume "variance xs = 0"
  then have "\<forall>x\<in>set xs. x = arithmeticMean xs"
    using assms by (simp add: variance_def sum_sq_zero_iff)
  moreover have "hd xs \<in> set xs" using assms by simp
  ultimately show "\<forall>x\<in>set xs. x = hd xs" by metis
next
  assume h: "\<forall>x\<in>set xs. x = hd xs"
  then have "arithmeticMean xs = hd xs" using assms by (rule_tac all_equal_mean)
  with h show "variance xs = 0" by (simp add: variance_def sum_sq_zero_iff)
qed

lemma calculateCorrelation_sums:
  assumes "length x = length y" "x \<noteq> []"
  shows "calculateCorrelation x y =
     (let n = (\<Sum>(a, b)\<leftarrow>zip x y. (a - arithmeticMean x) * (b - arithmeticMean y));
          dx = (\<Sum>a\<leftarrow>x. (a - arithmeticMean x) ^ 2);
          dy = (\<Sum>b\<leftarrow>y. (b - arithmeticMean y) ^ 2)
      in if sqrt (dx * dy) = 0 then 0 else n / sqrt (dx * dy))"
proof -
  have "y \<noteq> []" using assms by auto
  with assms have m: "calculateMean x = arithmeticMean x" "calculateMean y = arithmeticMean y"
    by (simp_all add: calculateMean_arithmeticMean)
  have "calculateCorrelation x y =
      (case fold (corr_step x y (arithmeticMean x) (arithmeticMean y)) [0..<length x] (0, 0, 0) of
         (numerator, denomX, denomY) \<Rightarrow>
           if sqrt (denomX * denomY) = 0 then 0 else numerator / sqrt (denomX * denomY))"
    unfolding calculateCorrelation_def m Let_def using assms by simp
  also have "\<dots> = (let n = (\<Sum>(a, b)\<leftarrow>zip x y. (a - arithmeticMean x) * (b - arithmeticMean y));
          dx = (\<Sum>a\<leftarrow>x. (a - arithmeticMean x) ^ 2);
          dy = (\<Sum>b\<leftarrow>y. (b - arithmeticMean y) ^ 2)
      in if sqrt (dx * dy) = 0 then 0 else n / sqrt (dx * dy))"
    unfolding corr_loop [OF assms(1)] Let_def by simp
  finally show ?thesis .
qed

text \<open>
  In exact arithmetic the guard of \<open>calculateCorrelation\<close> is complete: the result is 0 when
  the lengths differ, when an input is empty, or when a sequence has zero variance, and
  otherwise it is the Pearson coefficient; a non-empty sequence has zero variance exactly
  when it is constant.
\<close>

lemma calculateCorrelation_exact:
  "calculateCorrelation xs ys =
     (if length xs \<noteq> length ys \<or> xs = [] \<or> ys = [] \<or> variance xs = 0 \<or> variance ys = 0 then 0
      else pearson xs ys) \<and>
   (xs \<noteq> [] \<longrightarrow> (variance xs = 0 \<longleftrightarrow> (\<forall>x\<in>set xs. x = hd xs)))"
proof
  show "calculateCorrelation xs ys =
     (if length xs \<noteq> length ys \<or> xs = [] \<or> ys = [] \<or> variance xs = 0 \<or> variance ys = 0 then 0
      else pearson xs ys)"
  proof (cases "length xs \<noteq> length ys \<or> xs = []")
    case True
    then show ?thesis by (auto simp: calculateCorrelation_def)
  next
    case False
    then have len: "length xs = length ys" and ne: "xs \<noteq> []" "ys \<noteq> []" by auto
    have vx: "variance xs = 0 \<longleftrightarrow> (\<Sum>a\<leftarrow>xs. (a - arithmeticMean xs) ^ 2) = 0"
      using ne by (simp add: variance_def)
    have vy: "variance ys = 0 \<longleftrightarrow> (\<Sum>a\<leftarrow>ys. (a - arithmeticMean ys) ^ 2) = 0"
      using ne by (simp add: variance_def)
    show ?thesis
      using len ne
      by (simp add: calculateCorrelation_sums [OF len ne(1)] Let_def vx vy pearson_def
          real_sqrt_mult)
  qed
next
  show "xs \<noteq> [] \<longrightarrow> (variance xs = 0 \<longleftrightarrow> (\<forall>x\<in>set xs. x = hd xs))"
    by (simp add: variance_zero_iff)
qed

lemma calculateCorrelation_exact_tenths:
  "calculateCorrelation [1 / 10, 1 / 10, 1 / 10] [1 / 10, 1 / 10, 1 / 10] = 0"
  by (simp add: calculateCorrelation_def calculateMean_def corr_step_def upt_rec)

text \<open>
  Claim C8. The correlation is symmetric: \<open>calculateCorrelation xs ys\<close> equals
  \<open>calculateCorrelation ys xs\<close> for all sequences.
\<close>

theorem calculateCorrelation_symmetric:
  "calculateCorrelation xs ys = calculateCorrelation ys xs"
proof (cases "length xs = length ys \<and> xs \<noteq> []")
  case False
  then show ?thesis by (auto simp: calculateCorrelation_def)
next
  case True
  then have len: "length xs = length ys" "length ys = length xs"
    and ne: "xs \<noteq> []" "ys \<noteq> []" by auto
  have "(\<Sum>(a, b)\<leftarrow>zip xs ys. (a - arithmeticMean xs) * (b - arithmeticMean ys)) =
        (\<Sum>(b, a)\<leftarrow>zip ys xs. (b - arithmeticMean ys) * (a - arithmeticMean xs))"
    using len by (simp add: sum_list_zip_lessThan mult.commute)
  then show ?thesis
    by (simp add: calculateCorrelation_sums [OF len(1) ne(1)]
        calculateCorrelation_sums [OF len(2) ne(2)] Let_def mult.commute)
qed

theorem calculateCorrelation_symmetric_witness:
  "calculateCorrelation [1, 2, 4] [3, 1, 2] = calculateCorrelation [3, 1, 2] [1, 2, 4] \<and>
   calculateCorrelation [1, 2] [3, 1, 2] = calculateCorrelation [3, 1, 2] [1, 2]"
  using calculateCorrelation_symmetric [of "[1, 2, 4]" "[3, 1, 2]"]
    calculateCorrelation_symmetric [of "[1, 2]" "[3, 1, 2]"]
  by simp

section \<open>Properties of the classifier\<close>

text \<open>
  Claim C3. For every percentage \<open>p\<close> (also below 0 and above 100) the two classifiers are
  total, first match wins, and the lower bound of each band is inclusive.
\<close>

theorem classifier_bands:
  "(determineGroup p = HighAchiever \<longleftrightarrow> p \<ge> 90) \<and>
   (determineGroup p = AboveAverage \<longleftrightarrow> 75 \<le> p \<and> p < 90) \<and>
   (determineGroup p = Average \<longleftrightarrow> 60 \<le> p \<and> p < 75) \<and>
   (determineGroup p = BelowAverage \<longleftrightarrow> 50 \<le> p \<and> p < 60) \<and>
   (determineGroup p = AtRisk \<longleftrightarrow> \<not> p \<ge> 90 \<and> \<not> (75 \<le> p \<and> p < 90) \<and>
      \<not> (60 \<le> p \<and> p < 75) \<and> \<not> (50 \<le> p \<and> p < 60)) \<and>
   (determineGrade p = ''A'' \<longleftrightarrow> p \<ge> 90) \<and>
   (determineGrade p = ''B'' \<longleftrightarrow> 80 \<le> p \<and> p < 90) \<and>
   (determineGrade p = ''C'' \<longleftrightarrow> 70 \<le> p \<and> p < 80) \<and>
   (determineGrade p = ''D'' \<longleftrightarrow> 60 \<le> p \<and> p < 70) \<and>
   (determineGrade p = ''F'' \<longleftrightarrow> \<not> p \<ge> 90 \<and> \<not> (80 \<le> p \<and> p < 90) \<and>
      \<not> (70 \<le> p \<and> p < 80) \<and> \<not> (60 \<le> p \<and> p < 70))"
  by (simp add: determineGroup_def determineGrade_def)

theorem classifier_bands_witness:
  "determineGroup 90 = HighAchiever \<and> determineGroup 89.9 = AboveAverage \<and>
   determineGroup 75 = AboveAverage \<and> determineGroup 60 = Average \<and>
   determineGroup 50 = BelowAverage \<and> determineGroup (-3) = AtRisk \<and>
   determineGroup 250 = HighAchiever \<and>
   determineGrade 90 = ''A'' \<and> determineGrade 80 = ''B'' \<and> determineGrade 70 = ''C'' \<and>
   determineGrade 60 = ''D'' \<and> determineGrade 59.5 = ''F'' \<and> determineGrade (-3) = ''F''"
  using classifier_bands [of 90] classifier_bands [of "89.9"] classifier_bands [of 75]
    classifier_bands [of 60] classifier_bands [of 50] classifier_bands [of "-3"]
    classifier_bands [of 250] classifier_bands [of 80] classifier_bands [of 70]
    classifier_bands [of "59.5"]
  by simp

section \<open>Properties of the analysis aggregator\<close>

subsection \<open>The stable sort\<close>

text \<open>
  For a comparator that subtracts keys, \<open>sortBy\<close> is the stable sort of the library: the
  result is ordered by the key and elements with equal keys keep their order.
\<close>

lemma insertBy_insort_key:
  fixes f :: "'a \<Rightarrow> real"
  shows "insertBy (\<lambda>a b. f a - f b) x ys = insort_key f x ys"
  by (induction ys) simp_all

lemma sortBy_sort_key:
  fixes f :: "'a \<Rightarrow> real"
  shows "sortBy (\<lambda>a b. f a - f b) xs = sort_key f xs"
  by (induction xs) (simp_all add: insertBy_insort_key)

lemma sortBy_sorted_stable:
  fixes f :: "'a \<Rightarrow> real"
  shows "sorted (map f (sortBy (\<lambda>a b. f a - f b) xs))"
    and "filter (\<lambda>y. f y = k) (sortBy (\<lambda>a b. f a - f b) xs) = filter (\<lambda>y. f y = k) xs"
  by (simp_all add: sortBy_sort_key sort_key_stable)

lemma set_insertBy: "set (insertBy cmp x ys) = insert x (set ys)"
  by (induction ys) auto

lemma set_sortBy: "set (sortBy cmp xs) = set xs"
  by (induction xs) (auto simp: set_insertBy)

lemma insertBy_not_Nil: "insertBy cmp x ys \<noteq> []"
  by (cases ys) auto

lemma sortBy_Nil_iff: "sortBy cmp xs = [] \<longleftrightarrow> xs = []"
  by (cases xs) (auto simp: insertBy_not_Nil)

lemma hd_insertBy:
  "hd (insertBy cmp x ys) = (case ys of [] \<Rightarrow> x | y # _ \<Rightarrow> if cmp x y \<le> 0 then x else y)"
  by (cases ys) auto

lemma last_insertBy:
  "last (insertBy cmp x ys) = (if \<exists>y\<in>set ys. cmp x y \<le> 0 then last ys else x)"
  by (induction ys) (auto simp: insertBy_not_Nil)

lemma sortBy_desc_hd:
  fixes f :: "'a \<Rightarrow> real"
  assumes "xs \<noteq> []"
  shows "\<exists>i<length xs. hd (sortBy (\<lambda>a b. f b - f a) xs) = xs ! i \<and>
           (\<forall>j<length xs. f (xs ! j) \<le> f (xs ! i)) \<and> (\<forall>j<i. f (xs ! j) < f (xs ! i))"
  using assms
proof (induction xs)
  case Nil
  then show ?case by simp
next
  case (Cons x xs)
  show ?case
  proof (cases "xs = []")
    case True
    then show ?thesis by simp
  next
    case False
    let ?s = "sortBy (\<lambda>a b. f b - f a) xs"
    from Cons.IH [OF False] obtain i where i: "i < length xs" "hd ?s = xs ! i"
      "\<forall>j<length xs. f (xs ! j) \<le> f (xs ! i)" "\<forall>j<i. f (xs ! j) < f (xs ! i)"
      by blast
    have ne: "?s \<noteq> []" using False by (simp add: sortBy_Nil_iff)
    have hd: "hd (sortBy (\<lambda>a b. f b - f a) (x # xs)) = (if f (hd ?s) \<le> f x then x else hd ?s)"
      using ne by (cases ?s) (simp_all add: hd_insertBy)
    show ?thesis
    proof (cases "f (xs ! i) \<le> f x")
      case True
      have "\<forall>j<length (x # xs). f ((x # xs) ! j) \<le> f x"
      proof (intro allI impI)
        fix j assume "j < length (x # xs)"
        then show "f ((x # xs) ! j) \<le> f x"
          using i(3) True by (cases j) (auto intro: order_trans)
      qed
      then show ?thesis
        using hd i(2) True by (intro exI [of _ 0]) simp
    next
      case less: False
      have "\<forall>j<length (x # xs). f ((x # xs) ! j) \<le> f (xs ! i)"
      proof (intro allI impI)
        fix j assume "j < length (x # xs)"
        then show "f ((x # xs) ! j) \<le> f (xs ! i)"
          using i(3) less by (cases j) auto
      qed
      moreover have "\<forall>j<Suc i. f ((x # xs) ! j) < f (xs ! i)"
      proof (intro allI impI)
        fix j assume "j < Suc i"
        then show "f ((x # xs) ! j) < f (xs ! i)"
          using i(4) less by (cases j) auto
      qed
      ultimately show ?thesis
        using hd i(1,2) less by (intro exI [of _ "Suc i"]) simp
    qed
  qed
qed

lemma sortBy_desc_last:
  fixes f :: "'a \<Rightarrow> real"
  assumes "xs \<noteq> []"
  shows "\<exists>k<length xs. last (sortBy (\<lambda>a b. f b - f a) xs) = xs ! k \<and>
           (\<forall>j<length xs. f (xs ! k) \<le> f (xs ! j)) \<and>
           (\<forall>j<length xs. k < j \<longrightarrow> f (xs ! k) < f (xs ! j))"
  using assms
proof (induction xs)
  case Nil
  then show ?case by simp
next
  case (Cons x xs)
  show ?case
  proof (cases "xs = []")
    case True
    then show ?thesis by simp
  next
    case False
    let ?s = "sortBy (\<lambda>a b. f b - f a) xs"
    from Cons.IH [OF False] obtain k where k: "k < length xs" "last ?s = xs ! k"
      "\<forall>j<length xs. f (xs ! k) \<le> f (xs ! j)" "\<forall>j<length xs. k < j \<longrightarrow> f (xs ! k) < f (xs ! j)"
      by blast
    have ex: "(\<exists>y\<in>set ?s. f y - f x \<le> 0) \<longleftrightarrow> f (xs ! k) \<le> f x"
    proof
      assume "\<exists>y\<in>set ?s. f y - f x \<le> 0"
      then obtain y where y: "y \<in> set xs" "f y \<le> f x" by (auto simp: set_sortBy)
      then obtain j where "j < length xs" "y = xs ! j" by (auto simp: in_set_conv_nth)
      with k(3) y(2) show "f (xs ! k) \<le> f x" by (auto intro: order_trans)
    next
      assume "f (xs ! k) \<le> f x"
      moreover have "xs ! k \<in> set ?s" using k(1) by (simp add: set_sortBy)
      ultimately show "\<exists>y\<in>set ?s. f y - f x \<le> 0" by auto
    qed
    have last: "last (sortBy (\<lambda>a b. f b - f a) (x # xs)) = (if f (xs ! k) \<le> f x then xs ! k else x)"
      using ex k(2) by (simp add: last_insertBy)
    show ?thesis
    proof (cases "f (xs ! k) \<le> f x")
      case True
      have "\<forall>j<length (x # xs). f (xs ! k) \<le> f ((x # xs) ! j)"
      proof (intro allI impI)
        fix j assume "j < length (x # xs)"
        then show "f (xs ! k) \<le> f ((x # xs) ! j)"
          using k(3) True by (cases j) auto
      qed
      moreover have "\<forall>j<length (x # xs). Suc k < j \<longrightarrow> f (xs ! k) < f ((x # xs) ! j)"
      proof (intro allI impI)
        fix j assume "j < length (x # xs)" "Suc k < j"
        then show "f (xs ! k) < f ((x # xs) ! j)"
          using k(4) by (cases j) auto
      qed
      ultimately show ?thesis
        using last k(1) True by (intro exI [of _ "Suc k"]) simp
    next
      case less: False
      have "\<forall>j<length (x # xs). f x \<le> f ((x # xs) ! j)"
      proof (intro allI impI)
        fix j assume "j < length (x # xs)"
        then show "f x \<le> f ((x # xs) ! j)"
          using k(3) less by (cases j) (auto intro: order_trans less_imp_le)
      qed
      moreover have "\<forall>j<length (x # xs). 0 < j \<longrightarrow> f x < f ((x # xs) ! j)"
      proof (intro allI impI)
        fix j assume "j < length (x # xs)" "0 < j"
        then show "f x < f ((x # xs) ! j)"
          using k(3) less by (cases j) (auto intro: less_le_trans)
      qed
      ultimately show ?thesis
        using last less by (intro exI [of _ 0]) simp
    qed
  qed
qed

lemma those_eq_Some: "those xs = Some ys \<longleftrightarrow> xs = map Some ys"
  by (induction xs arbitrary: ys) (auto split: option.splits)

subsection \<open>Component statistics\<close>

lemma componentStatOf_Some:
  "componentStatOf studs key = Some c \<Longrightarrow>
     ComponentStat.name c = key \<and>
     map_option calculateMean (compScoresOf studs key) = Some (ComponentStat.mean c)"
  by (auto simp: componentStatOf_def Let_def split: option.splits)

lemma componentStatsOf_Some:
  assumes "componentStatsOf studs = Some stats"
  shows "map ComponentStat.name stats = componentKeysOf studs"
    and "\<forall>c\<in>set stats.
           map_option calculateMean (compScoresOf studs (ComponentStat.name c)) = Some (ComponentStat.mean c)"
proof -
  from assms have eq: "map (componentStatOf studs) (componentKeysOf studs) = map Some stats"
    by (simp add: componentStatsOf_def those_eq_Some)
  then have len: "length stats = length (componentKeysOf studs)"
    by (metis length_map)
  have nth: "componentStatOf studs (componentKeysOf studs ! i) = Some (stats ! i)"
    if "i < length stats" for i
    using that len eq by (metis nth_map)
  show "map ComponentStat.name stats = componentKeysOf studs"
  proof (rule nth_equalityI)
    show "length (map ComponentStat.name stats) = length (componentKeysOf studs)"
      using len by simp
  next
    fix i assume "i < length (map ComponentStat.name stats)"
    then have "i < length stats" by simp
    from componentStatOf_Some [OF nth [OF this]] this
    show "map ComponentStat.name stats ! i = componentKeysOf studs ! i" by simp
  qed
  show "\<forall>c\<in>set stats.
           map_option calculateMean (compScoresOf studs (ComponentStat.name c)) = Some (ComponentStat.mean c)"
  proof
    fix c assume "c \<in> set stats"
    then obtain i where i: "i < length stats" "c = stats ! i" by (auto simp: in_set_conv_nth)
    from componentStatOf_Some [OF nth [OF i(1)]] i(2)
    show "map_option calculateMean (compScoresOf studs (ComponentStat.name c)) = Some (ComponentStat.mean c)"
      by simp
  qed
qed

lemma compScoresOf_uniform:
  assumes "\<forall>s\<in>set studs. key \<in> fst ` set (components s)"
  shows "\<exists>scores. compScoresOf studs key = Some scores"
proof -
  have "\<forall>s\<in>set studs. \<exists>v. map_of (components s) key = Some v"
    using assms by (metis map_of_eq_None_iff not_Some_eq)
  then obtain g where g: "\<forall>s\<in>set studs. map_of (components s) key = Some (g s)"
    by metis
  then have "map (\<lambda>s. map_of (components s) key) studs = map Some (map g studs)"
    by simp
  then show ?thesis unfolding compScoresOf_def those_eq_Some by (rule exI)
qed

lemma componentStatsOf_uniform:
  assumes "\<forall>s\<in>set studs. \<forall>key\<in>set (componentKeysOf studs). key \<in> fst ` set (components s)"
  shows "\<exists>stats. componentStatsOf studs = Some stats"
proof -
  have "\<forall>key\<in>set (componentKeysOf studs). \<exists>c. componentStatOf studs key = Some c"
  proof
    fix key assume "key \<in> set (componentKeysOf studs)"
    with assms have "\<forall>s\<in>set studs. key \<in> fst ` set (components s)" by blast
    from compScoresOf_uniform [OF this]
    show "\<exists>c. componentStatOf studs key = Some c"
      by (auto simp: componentStatOf_def Let_def)
  qed
  then obtain g where "\<forall>key\<in>set (componentKeysOf studs). componentStatOf studs key = Some (g key)"
    by metis
  then have "map (componentStatOf studs) (componentKeysOf studs) = map Some (map g (componentKeysOf studs))"
    by simp
  then show ?thesis unfolding componentStatsOf_def those_eq_Some by (rule exI)
qed

lemma performFullAnalysis_selection:
  assumes "componentStatsOf studs = Some stats"
  shows "\<exists>r. performFullAnalysis studs = Some r \<and> AnalysisResult.componentStats r = stats \<and>
           AnalysisResult.strongestComponent r =
             nameOrNA (if stats = [] then None else Some (hd (sortedComponentsOf stats))) \<and>
           AnalysisResult.weakestComponent r =
             nameOrNA (if stats = [] then None else Some (last (sortedComponentsOf stats)))"
proof (cases "stats = []")
  case True
  then show ?thesis using assms
    by (simp add: performFullAnalysis_def sortedComponentsOf_def)
next
  case False
  then have "sortedComponentsOf stats \<noteq> []"
    by (simp add: sortedComponentsOf_def sortBy_Nil_iff)
  then show ?thesis using assms False
    by (simp add: performFullAnalysis_def Let_def hd_conv_nth last_conv_nth)
qed

lemma hd_sorted_firstWithMaxMean:
  assumes "cs \<noteq> []"
  shows "firstWithMaxMean cs = Some (hd (sortedComponentsOf cs))"
proof -
  from sortBy_desc_hd [OF assms, of ComponentStat.mean] obtain i where
    i: "i < length cs" "hd (sortedComponentsOf cs) = cs ! i"
       "\<forall>j<length cs. ComponentStat.mean (cs ! j) \<le> ComponentStat.mean (cs ! i)"
       "\<forall>j<i. ComponentStat.mean (cs ! j) < ComponentStat.mean (cs ! i)"
    unfolding sortedComponentsOf_def by blast
  have "hasMaxMean cs (cs ! i)"
    using i(3) by (simp add: hasMaxMean_def list_all_length)
  moreover have "\<forall>j<i. \<not> hasMaxMean cs (cs ! j)"
  proof (intro allI impI)
    fix j assume "j < i"
    with i(4) have "ComponentStat.mean (cs ! j) < ComponentStat.mean (cs ! i)" by simp
    then have "\<not> ComponentStat.mean (cs ! i) \<le> ComponentStat.mean (cs ! j)" by simp
    with i(1) show "\<not> hasMaxMean cs (cs ! j)"
      unfolding hasMaxMean_def list_all_length by blast
  qed
  ultimately show ?thesis
    unfolding firstWithMaxMean_def find_Some_iff using i(1,2) by auto
qed

lemma last_sorted_lastWithMinMean:
  assumes "cs \<noteq> []"
  shows "lastWithMinMean cs = Some (last (sortedComponentsOf cs))"
proof -
  from sortBy_desc_last [OF assms, of ComponentStat.mean] obtain k where
    k: "k < length cs" "last (sortedComponentsOf cs) = cs ! k"
       "\<forall>j<length cs. ComponentStat.mean (cs ! k) \<le> ComponentStat.mean (cs ! j)"
       "\<forall>j<length cs. k < j \<longrightarrow> ComponentStat.mean (cs ! k) < ComponentStat.mean (cs ! j)"
    unfolding sortedComponentsOf_def by blast
  let ?i = "length cs - Suc k"
  have i: "?i < length (rev cs)" using k(1) by simp
  have nth: "rev cs ! ?i = cs ! k" using k(1) by (simp add: rev_nth)
  have "hasMinMean cs (cs ! k)"
    using k(3) by (simp add: hasMinMean_def list_all_length)
  moreover have "\<forall>j<?i. \<not> hasMinMean cs (rev cs ! j)"
  proof (intro allI impI)
    fix j assume j: "j < ?i"
    then have lt: "length cs - Suc j < length cs" "k < length cs - Suc j" by auto
    have "rev cs ! j = cs ! (length cs - Suc j)" using j by (simp add: rev_nth)
    moreover from k(4) lt have "ComponentStat.mean (cs ! k) < ComponentStat.mean (cs ! (length cs - Suc j))"
      by blast
    then have "\<not> ComponentStat.mean (cs ! (length cs - Suc j)) \<le> ComponentStat.mean (cs ! k)" by simp
    ultimately show "\<not> hasMinMean cs (rev cs ! j)"
      unfolding hasMinMean_def list_all_length using k(1) by auto
  qed
  ultimately show ?thesis
    unfolding lastWithMinMean_def find_Some_iff using i nth k(2) by auto
qed

text \<open>
  Claim C1, as the code has it. For a non-empty student list whose first student has a
  non-empty component set, every student having each of those components,
  \<open>performFullAnalysis\<close> returns a result whose component statistics follow the enumeration
  order of the first student's components, each with the mean of that component's scores.
  \<open>strongestComponent\<close> is the name of the component with the maximum mean, the first in
  enumeration order among those that tie on it; \<open>weakestComponent\<close> is the name of the
  component with the minimum mean, the last in enumeration order among those that tie on it.
  An empty name is reported as \<open>N/A\<close>.
\<close>

theorem strongest_weakest_selection:
  assumes "studs \<noteq> []" and "componentKeysOf studs \<noteq> []"
    and "\<forall>s\<in>set studs. \<forall>key\<in>set (componentKeysOf studs). key \<in> fst ` set (components s)"
  shows "\<exists>r. performFullAnalysis studs = Some r \<and>
     (let cs = AnalysisResult.componentStats r
      in map ComponentStat.name cs = componentKeysOf studs \<and>
         (\<forall>c\<in>set cs. map_option calculateMean (compScoresOf studs (ComponentStat.name c)) =
                        Some (ComponentStat.mean c)) \<and>
         AnalysisResult.strongestComponent r = nameOrNA (firstWithMaxMean cs) \<and>
         AnalysisResult.weakestComponent r = nameOrNA (lastWithMinMean cs))"
proof -
  from componentStatsOf_uniform [OF assms(3)] obtain stats
    where stats: "componentStatsOf studs = Some stats" by blast
  from componentStatsOf_Some [OF stats]
  have names: "map ComponentStat.name stats = componentKeysOf studs"
    and means: "\<forall>c\<in>set stats.
           map_option calculateMean (compScoresOf studs (ComponentStat.name c)) = Some (ComponentStat.mean c)"
    by simp_all
  from names assms(2) have ne: "stats \<noteq> []" by auto
  from performFullAnalysis_selection [OF stats] ne obtain r where
    r: "performFullAnalysis studs = Some r" "AnalysisResult.componentStats r = stats"
       "AnalysisResult.strongestComponent r = nameOrNA (Some (hd (sortedComponentsOf stats)))"
       "AnalysisResult.weakestComponent r = nameOrNA (Some (last (sortedComponentsOf stats)))"
    by auto
  show ?thesis
    unfolding Let_def
    using r names means hd_sorted_firstWithMaxMean [OF ne] last_sorted_lastWithMinMean [OF ne]
    by auto
qed

theorem strongest_weakest_selection_witness:
  "performFullAnalysis quizExamStudents \<noteq> None \<and>
   map_option (map ComponentStat.name \<circ> AnalysisResult.componentStats) (performFullAnalysis quizExamStudents) = Some [''Quiz'', ''Exam''] \<and>
   map_option (map ComponentStat.mean \<circ> AnalysisResult.componentStats) (performFullAnalysis quizExamStudents) = Some [90, 60] \<and>
   map_option AnalysisResult.strongestComponent (performFullAnalysis quizExamStudents) = Some ''Quiz'' \<and>
   map_option AnalysisResult.weakestComponent (performFullAnalysis quizExamStudents) = Some ''Exam''"
proof -
  have h1: "quizExamStudents \<noteq> []" by (simp add: quizExamStudents_def)
  have h2: "componentKeysOf quizExamStudents \<noteq> []"
    by (simp add: quizExamStudents_def exampleStudent_def componentKeysOf_def)
  have h3: "\<forall>s\<in>set quizExamStudents. \<forall>key\<in>set (componentKeysOf quizExamStudents).
              key \<in> fst ` set (components s)"
    by (simp add: quizExamStudents_def exampleStudent_def componentKeysOf_def)
  from strongest_weakest_selection [OF h1 h2 h3] obtain r
    where r: "performFullAnalysis quizExamStudents = Some r" by blast
  have stats: "map (\<lambda>c. (ComponentStat.name c, ComponentStat.mean c)) (AnalysisResult.componentStats r) = [(''Quiz'', 90), (''Exam'', 60)]"
    and "AnalysisResult.strongestComponent r = ''Quiz''" and "AnalysisResult.weakestComponent r = ''Exam''"
    using r
    by (auto simp add: performFullAnalysis_def componentStatsOf_def componentKeysOf_def componentStatOf_def
        compScoresOf_def quizExamStudents_def exampleStudent_def calculateMean_def sortedComponentsOf_def nameOrNA_def Let_def)
  then show ?thesis using r by (auto simp: comp_def)
qed

lemma tie_result:
  "map_option (\<lambda>r. (map ComponentStat.name (AnalysisResult.componentStats r),
                     map ComponentStat.mean (AnalysisResult.componentStats r),
                     AnalysisResult.strongestComponent r, AnalysisResult.weakestComponent r))
     (performFullAnalysis [tieStudent]) =
   Some ([''A'', ''B''], [50, 50], ''A'', ''B'')"
  by (simp add: performFullAnalysis_def componentStatsOf_def componentKeysOf_def componentStatOf_def
      compScoresOf_def tieStudent_def exampleStudent_def calculateMean_def sortedComponentsOf_def
      nameOrNA_def Let_def)


text \<open>
  The claim C1 as stated lets the first component in enumeration order win a tie on the
  minimum mean as well. For one student with the components \<open>A\<close> and \<open>B\<close>, both 50, the
  statistics are enumerated as \<open>A\<close>, \<open>B\<close> with means 50 and 50; the first component with the
  minimum mean is \<open>A\<close>, and \<open>weakestComponent\<close> is \<open>B\<close>.
\<close>

theorem weakest_tie_counterexample:
  "map_option (map ComponentStat.name \<circ> AnalysisResult.componentStats)
     (performFullAnalysis [tieStudent]) = Some [''A'', ''B''] \<and>
   map_option (map ComponentStat.mean \<circ> AnalysisResult.componentStats)
     (performFullAnalysis [tieStudent]) = Some [50, 50] \<and>
   map_option (nameOrNA \<circ> firstWithMinMean \<circ> AnalysisResult.componentStats)
     (performFullAnalysis [tieStudent]) = Some ''A'' \<and>
   map_option AnalysisResult.weakestComponent (performFullAnalysis [tieStudent]) = Some ''B''"
proof -
  obtain r where r: "performFullAnalysis [tieStudent] = Some r"
    using tie_result by (cases "performFullAnalysis [tieStudent]") auto
  with tie_result have f: "map ComponentStat.name (AnalysisResult.componentStats r) = [''A'', ''B'']"
    "map ComponentStat.mean (AnalysisResult.componentStats r) = [50, 50]"
    "AnalysisResult.weakestComponent r = ''B''" by simp_all
  then obtain a b where ab: "AnalysisResult.componentStats r = [a, b]" by auto
  with f have "nameOrNA (firstWithMinMean (AnalysisResult.componentStats r)) = ''A''"
    by (simp add: firstWithMinMean_def hasMinMean_def nameOrNA_def)
  with r f show ?thesis by simp
qed


section \<open>Properties of the row normalizer\<close>









lemma normalizeRow_name:
  "StudentData.name (normalizeRow nts mapping row idx) = resolvedName nts mapping row"
  by (simp add: normalizeRow_def Let_def split_beta)

lemma trim_Nil: "trim [] = []"
  by (simp add: trim_def)

lemma processRows_filter:
  "processRows nts mapping rows =
     map (\<lambda>(idx, row). normalizeRow nts mapping row idx)
       (filter (\<lambda>(idx, row). trim (resolvedName nts mapping row) \<noteq> []) (enumerate 0 rows))"
proof -
  have "(\<lambda>student. StudentData.name student \<noteq> [] \<and> trim (StudentData.name student) \<noteq> []) \<circ>
          (\<lambda>(idx, row). normalizeRow nts mapping row idx) =
        (\<lambda>(idx, row). trim (resolvedName nts mapping row) \<noteq> [])"
    by (auto simp: fun_eq_iff normalizeRow_name trim_Nil)
  then show ?thesis by (simp add: processRows_def filter_map)
qed

lemma length_filter_enumerate:
  "length (filter (\<lambda>(idx, row). P row) (enumerate n rows)) = length (filter P rows)"
  by (induction rows arbitrary: n) simp_all

lemma length_processRows:
  "length (processRows nts mapping rows) =
     length rows - length (filter (\<lambda>row. trim (resolvedName nts mapping row) = []) rows)"
proof -
  have "length (processRows nts mapping rows) =
        length (filter (\<lambda>row. trim (resolvedName nts mapping row) \<noteq> []) rows)"
    by (simp add: processRows_filter length_filter_enumerate)
  moreover have "length (filter (\<lambda>row. trim (resolvedName nts mapping row) \<noteq> []) rows) +
        length (filter (\<lambda>row. trim (resolvedName nts mapping row) = []) rows) = length rows"
    using sum_length_filter_compl [of "\<lambda>row. trim (resolvedName nts mapping row) \<noteq> []" rows] by simp
  ultimately show ?thesis by simp
qed

lemma set_insertIndexKey: "set (insertIndexKey k v obj) = insert (k, v) (set obj)"
  by (induction obj) (auto split: if_splits)

lemma keys_objSet: "fst ` set (objSet k v obj) = insert k (fst ` set obj)"
  by (auto simp: objSet_def dom_update set_insertIndexKey)



lemma keys_fold_objSet:
  "fst ` set (fold (\<lambda>col. objSet col (f col)) cols cs) = set cols \<union> fst ` set cs"
  by (induction cols arbitrary: cs) (auto simp: keys_objSet)






text \<open>
  Claim C5. For every sequence of raw rows and every column mapping, the student set holds
  one record for each row whose resolved name (exact key first, then the key that matches
  after lower-casing and trimming) is non-empty after trimming, in the order of the rows,
  and no record for any other row; so the number of records is the number of rows minus
  the number of rows with an empty resolved name. The resolved name is the constant \<open>name\<close>
  of the source, the text of the cell found, and empty when the cell is falsy; it is empty
  for a row that has neither the name column nor a key matching it. \<open>onMappingConfirmed\<close>
  stores this set for the rows of the selected sheets.
\<close>

theorem population_filter:
  "processRows nts mapping rows =
     map (\<lambda>(idx, row). normalizeRow nts mapping row idx)
       (filter (\<lambda>(idx, row). trim (resolvedName nts mapping row) \<noteq> []) (enumerate 0 rows)) \<and>
   length (processRows nts mapping rows) =
     length rows - length (filter (\<lambda>row. trim (resolvedName nts mapping row) = []) rows) \<and>
   (\<forall>s\<in>set (processRows nts mapping rows). trim (StudentData.name s) \<noteq> []) \<and>
   (\<forall>row\<in>set rows.
      nameCol mapping \<notin> fst ` set row \<and>
      find (\<lambda>k. trim (toLowerCase k) = trim (toLowerCase (nameCol mapping))) (map fst row) = None \<longrightarrow>
      resolvedName nts mapping row = []) \<and>
   allStudents (onMappingConfirmed nts mapping st) =
     processRows nts mapping (allRowsOf (rawSheetData st) (selectedSheetNames st))"
proof (intro conjI)
  show "\<forall>s\<in>set (processRows nts mapping rows). trim (StudentData.name s) \<noteq> []"
    by (simp add: processRows_def)
  show "\<forall>row\<in>set rows.
      nameCol mapping \<notin> fst ` set row \<and>
      find (\<lambda>k. trim (toLowerCase k) = trim (toLowerCase (nameCol mapping))) (map fst row) = None \<longrightarrow>
      resolvedName nts mapping row = []"
    by (simp add: resolvedName_def getSmartValue_def Let_def)
  show "allStudents (onMappingConfirmed nts mapping st) =
     processRows nts mapping (allRowsOf (rawSheetData st) (selectedSheetNames st))"
    by (simp add: onMappingConfirmed_def Let_def)
qed (rule processRows_filter length_processRows)+

theorem population_filter_witness:
  "length nameRows = 5 \<and>
   length (filter (\<lambda>row. trim (resolvedName (\<lambda>r. ''0'') junkMapping row) = []) nameRows) = 3 \<and>
   length (processRows (\<lambda>r. ''0'') junkMapping nameRows) = 2 \<and>
   map StudentData.name (processRows (\<lambda>r. ''0'') junkMapping nameRows) = [''Ann'', ''Bob'']"
proof -
  have n: "length nameRows = 5"
    by (simp add: nameRows_def)
  have e: "length (filter (\<lambda>row. trim (resolvedName (\<lambda>r. ''0'') junkMapping row) = []) nameRows) = 3"
    by code_simp
  have m: "map StudentData.name (processRows (\<lambda>r. ''0'') junkMapping nameRows) = [''Ann'', ''Bob'']"
    by code_simp
  from population_filter [of "\<lambda>r. ''0''" junkMapping nameRows]
  have "length (processRows (\<lambda>r. ''0'') junkMapping nameRows) =
      length nameRows - length (filter (\<lambda>row. trim (resolvedName (\<lambda>r. ''0'') junkMapping row) = []) nameRows)"
    by blast
  with n e m show ?thesis by simp
qed

section \<open>Properties of the narrative request\<close>

text \<open>
  Claim C9. The request that \<open>generateEducationalActionPlan\<close> sends is a function of the
  summary, the component statistics, \<open>strongestComponent\<close> and \<open>weakestComponent\<close> of the given
  analysis only: two analyses that agree on these four parts, whatever their student lists,
  give the same request.
\<close>

theorem request_independent_of_students:
  assumes "FullAnalysis.summary a = FullAnalysis.summary b"
    and "FullAnalysis.componentStats a = FullAnalysis.componentStats b"
    and "FullAnalysis.strongestComponent a = FullAnalysis.strongestComponent b"
    and "FullAnalysis.weakestComponent a = FullAnalysis.weakestComponent b"
  shows "generateContentRequest toFixed a = generateContentRequest toFixed b"
  using assms by (simp add: generateContentRequest_def prompt_def)

theorem request_independent_of_students_witness:
  "students (analysisOf quizExamStudents) \<noteq> students (analysisOf [tieStudent]) \<and>
   generateContentRequest (\<lambda>x d. ''0.0'') (analysisOf quizExamStudents) =
   generateContentRequest (\<lambda>x d. ''0.0'') (analysisOf [tieStudent])"
proof -
  have "students (analysisOf quizExamStudents) \<noteq> students (analysisOf [tieStudent])"
    by (simp add: analysisOf_def quizExamStudents_def)
  moreover have "generateContentRequest (\<lambda>x d. ''0.0'') (analysisOf quizExamStudents) =
      generateContentRequest (\<lambda>x d. ''0.0'') (analysisOf [tieStudent])"
    by (rule request_independent_of_students) (simp_all add: analysisOf_def)
  ultimately show ?thesis by simp
qed

section \<open>Properties in double precision\<close>

subsection \<open>Rounding\<close>

lemma rnd_normal:
  assumes "2 powi (e + 52) \<le> \<bar>x\<bar>" and "\<bar>x\<bar> < 2 powi (e + 53)" and "- 1074 \<le> e"
  shows "rnd x =
     (let y = of_int (roundEven (x / 2 powi e)) * 2 powi e
      in if \<bar>y\<bar> \<ge> 2 ^ 1024 then (if x < 0 then NegInfinity else PosInfinity) else Finite y)"
proof -
  have pos: "0 < \<bar>x\<bar>"
    using assms(1) by (smt (verit) zero_less_power_int)
  then have nz: "x \<noteq> 0" by auto
  have p: "(2::real) powr real_of_int k = 2 powi k" for k
    by (rule powr_real_of_int') simp_all
  have "(2::real) powr real_of_int (e + 52) \<le> \<bar>x\<bar>"
    using assms(1) by (simp only: p)
  moreover have "\<bar>x\<bar> < (2::real) powr real_of_int (e + 52 + 1)"
    using assms(2) by (simp only: p) (simp add: add.commute add.left_commute)
  ultimately have "\<lfloor>log 2 \<bar>x\<bar>\<rfloor> = e + 52"
    using pos by (subst floor_log_eq_powr_iff) simp_all
  then show ?thesis
    using nz assms(3) by (simp add: rnd_def Let_def)
qed

lemma tenth_eq: "tenth = Finite (3602879701896397 / 36028797018963968)"
  unfolding tenth_def
  by (subst rnd_normal [of "-56"]) (simp_all add: roundEven_def Let_def power_int_minus)


lemma roundEven_of_int: "roundEven (of_int m) = m"
  by (simp add: roundEven_def)

lemma rnd_exact:
  assumes "x = of_int m * 2 powi e" and "2 ^ 52 \<le> \<bar>m\<bar>" and "\<bar>m\<bar> < 2 ^ 53"
    and "- 1074 \<le> e" and "e \<le> 970"
  shows "rnd x = Finite x"
proof -
  have pw: "(2::real) powi (e + k) = 2 powi e * 2 ^ k" for k :: nat
    by (simp add: power_int_add)
  have ax: "\<bar>x\<bar> = of_int \<bar>m\<bar> * 2 powi e"
    by (simp add: assms(1) abs_mult)
  have "(2::real) ^ 52 \<le> of_int \<bar>m\<bar>"
    using assms(2) by (metis of_int_le_iff of_int_numeral of_int_power)
  then have lo: "2 powi (e + 52) \<le> \<bar>x\<bar>"
    using pw [of 52] by (simp add: ax mult.commute)
  have "of_int \<bar>m\<bar> < (2::real) ^ 53"
    using assms(3) by (metis of_int_less_iff of_int_numeral of_int_power)
  then have hi: "\<bar>x\<bar> < 2 powi (e + 53)"
    using pw [of 53] by (simp add: ax mult.commute)
  have q: "x / 2 powi e = of_int m"
    by (simp add: assms(1))
  have "\<bar>x\<bar> < 2 powi e * 2 ^ 53"
    using hi pw [of 53] by simp
  also have "\<dots> \<le> 2 powi 970 * 2 ^ 53"
  proof -
    have "(2::real) powi e \<le> 2 powi 970"
      using assms(5) by (intro power_int_increasing) simp_all
    then show ?thesis
      by (rule mult_right_mono) simp
  qed
  also have "\<dots> < (2::real) ^ 1024"
    by (simp add: power_int_def)
  finally have fin: "\<not> \<bar>x\<bar> \<ge> 2 ^ 1024" by simp
  show ?thesis
    unfolding rnd_normal [OF lo hi assms(4)] Let_def q roundEven_of_int
    using fin by (simp add: assms(1))
qed

lemma rnd_d: "rnd (3602879701896397 / 36028797018963968) = Finite (3602879701896397 / 36028797018963968)"
  by (rule rnd_exact [where m = "7205759403792794" and e = "-56"]) (simp_all add: power_int_minus)

lemma rnd_2d: "rnd (3602879701896397 / 18014398509481984) = Finite (3602879701896397 / 18014398509481984)"
  by (rule rnd_exact [where m = "7205759403792794" and e = "-55"]) (simp_all add: power_int_minus)

lemma rnd_xd: "rnd (- (1 / 72057594037927936)) = Finite (- (1 / 72057594037927936))"
  by (rule rnd_exact [where m = "-4503599627370496" and e = "-108"]) (simp_all add: power_int_minus)

lemma rnd_q: "rnd (1 / 5192296858534827628530496329220096) = Finite (1 / 5192296858534827628530496329220096)"
  by (rule rnd_exact [where m = "4503599627370496" and e = "-164"]) (simp_all add: power_int_minus)

lemma rnd_2q: "rnd (1 / 2596148429267413814265248164610048) = Finite (1 / 2596148429267413814265248164610048)"
  by (rule rnd_exact [where m = "4503599627370496" and e = "-163"]) (simp_all add: power_int_minus)

lemma rnd_3q: "rnd (3 / 5192296858534827628530496329220096) = Finite (3 / 5192296858534827628530496329220096)"
  by (rule rnd_exact [where m = "6755399441055744" and e = "-163"]) (simp_all add: power_int_minus)

lemma rnd_9qq: "rnd (9 / 26959946667150639794667015087019630673637144422540572481103610249216) = Finite (9 / 26959946667150639794667015087019630673637144422540572481103610249216)"
  by (rule rnd_exact [where m = "5066549580791808" and e = "-273"]) (simp_all add: power_int_minus)

lemma rnd_one: "rnd 1 = Finite 1"
  by (rule rnd_exact [where m = "4503599627370496" and e = "-52"]) (simp_all add: power_int_minus)

lemma rnd_3d: "rnd (10808639105689191 / 36028797018963968) = Finite (1351079888211149 / 4503599627370496)"
  by (subst rnd_normal [of "-54"]) (simp_all add: roundEven_def Let_def power_int_minus)

lemma rnd_mean: "rnd (1351079888211149 / 13510798882111488) = Finite (7205759403792795 / 72057594037927936)"
  by (subst rnd_normal [of "-56"]) (simp_all add: roundEven_def Let_def power_int_minus)

lemma sqrt_9qq: "sqrt (9 / 26959946667150639794667015087019630673637144422540572481103610249216) = 3 / 5192296858534827628530496329220096"
  by (rule real_sqrt_unique) (simp_all add: power2_eq_square)

lemma mean_tenths:
  "calculateMean_f64
     [Finite (3602879701896397 / 36028797018963968), Finite (3602879701896397 / 36028797018963968),
      Finite (3602879701896397 / 36028797018963968)] =
   Finite (7205759403792795 / 72057594037927936)"
  by (simp add: calculateMean_f64_def rnd_d rnd_2d rnd_3d rnd_mean)

text \<open>
  Claim C4 says that \<open>calculateCorrelation\<close> returns the sentinel 0 whenever a sequence is
  constant. In double precision it does not: the mean of the constant sequence
  \<open>[0.1, 0.1, 0.1]\<close> is \<open>0.10000000000000002\<close>, every deviation from it is \<open>-2^-56\<close>, the
  denominator is \<open>3 * 2^-112\<close> and not 0, and the correlation of the sequence with itself is
  1, where the guard of the source was to return 0.
\<close>

theorem constant_correlation_f64:
  "calculateCorrelation_f64 [tenth, tenth, tenth] [tenth, tenth, tenth] = Finite 1"
  by (simp add: calculateCorrelation_f64_def mean_tenths corr_step_f64_def sub_f64_def eq_f64_def Let_def
      upt_rec tenth_eq rnd_xd rnd_q rnd_2q rnd_3q rnd_9qq rnd_one sqrt_9qq)

theorem constant_correlation_f64_witness:
  "tenth = Finite (3602879701896397 / 36028797018963968) \<and>
   calculateCorrelation_f64 [tenth, tenth, tenth] [tenth, tenth, tenth] \<noteq> Finite 0 \<and>
   calculateCorrelation [1 / 10, 1 / 10, 1 / 10] [1 / 10, 1 / 10, 1 / 10] = 0"
  using constant_correlation_f64 tenth_eq calculateCorrelation_exact_tenths by simp


subsection \<open>The summary counts\<close>

lemma ge_f64_cases:
  "ge_f64 p (Finite c) \<longleftrightarrow> (case p of Finite r \<Rightarrow> c \<le> r | PosInfinity \<Rightarrow> True | _ \<Rightarrow> False)"
  by (cases p) (simp_all add: ge_f64_def)

lemma lt_f64_cases:
  "lt_f64 p (Finite c) \<longleftrightarrow> (case p of Finite r \<Rightarrow> r < c | NegInfinity \<Rightarrow> True | _ \<Rightarrow> False)"
  by (cases p) (auto simp: lt_f64_def)

lemma grade_pass:
  "length (filter (\<lambda>s. ge_f64 (percentage_f64 s) (Finite 60)) studs) =
     length (filter (\<lambda>s. determineGrade_f64 (percentage_f64 s) = ''A'') studs) +
     length (filter (\<lambda>s. determineGrade_f64 (percentage_f64 s) = ''B'') studs) +
     length (filter (\<lambda>s. determineGrade_f64 (percentage_f64 s) = ''C'') studs) +
     length (filter (\<lambda>s. determineGrade_f64 (percentage_f64 s) = ''D'') studs)"
  by (induction studs)
    (auto simp: determineGrade_f64_def ge_f64_cases split: number.splits)

lemma grade_fail:
  "length (filter (\<lambda>s. determineGrade_f64 (percentage_f64 s) = ''F'') studs) =
     length (filter (\<lambda>s. lt_f64 (percentage_f64 s) (Finite 60)) studs) +
     length (filter (\<lambda>s. isNaN (percentage_f64 s)) studs)"
  by (induction studs)
    (auto simp: determineGrade_f64_def ge_f64_cases lt_f64_cases split: number.splits)

lemma pass_fail_nan:
  "length (filter (\<lambda>s. ge_f64 (percentage_f64 s) (Finite 60)) studs) +
   length (filter (\<lambda>s. lt_f64 (percentage_f64 s) (Finite 60)) studs) +
   length (filter (\<lambda>s. isNaN (percentage_f64 s)) studs) = length studs"
  by (induction studs) (auto simp: ge_f64_cases lt_f64_cases split: number.splits)

lemma no_nan_filter:
  "\<forall>s\<in>set studs. \<not> isNaN (percentage_f64 s) \<Longrightarrow>
   length (filter (\<lambda>s. isNaN (percentage_f64 s)) studs) = 0"
  by (induction studs) auto

text \<open>
  Claim C10, as the code has it. For every student list the five bins of the grade
  histogram sum to the number of students and \<open>passCount\<close> is the sum of the bins \<open>A\<close> to
  \<open>D\<close>. A student whose percentage is \<open>NaN\<close> is in the bin \<open>F\<close> and in neither \<open>passCount\<close>
  nor \<open>failCount\<close>; when no percentage is \<open>NaN\<close>, \<open>passCount + failCount\<close> is the number of
  students and \<open>failCount\<close> is the bin \<open>F\<close>.
\<close>

theorem summary_counts_partition:
  "(let bin = (\<lambda>g. case map_of (gradeDist_f64 studs) g of None \<Rightarrow> 0 | Some n \<Rightarrow> n);
        nan = length (filter (\<lambda>s. isNaN (percentage_f64 s)) studs)
    in bin ''A'' + bin ''B'' + bin ''C'' + bin ''D'' + bin ''F'' = length studs \<and>
       passCount_f64 studs = bin ''A'' + bin ''B'' + bin ''C'' + bin ''D'' \<and>
       passCount_f64 studs + failCount_f64 studs + nan = length studs \<and>
       bin ''F'' = failCount_f64 studs + nan \<and>
       ((\<forall>s\<in>set studs. \<not> isNaN (percentage_f64 s)) \<longrightarrow>
          passCount_f64 studs + failCount_f64 studs = length studs \<and>
          failCount_f64 studs = bin ''F''))"
  using grade_pass [of studs] grade_fail [of studs] pass_fail_nan [of studs]
    no_nan_filter [of studs]
  by (auto simp: Let_def gradeDist_f64_def passCount_f64_def failCount_f64_def)

theorem summary_counts_partition_witness:
  "list_all (\<lambda>s. \<not> isNaN (percentage_f64 s)) threeStudents \<and>
   passCount_f64 threeStudents = 2 \<and> failCount_f64 threeStudents = 1 \<and>
   gradeDist_f64 threeStudents = [(''A'', 1), (''B'', 0), (''C'', 0), (''D'', 1), (''F'', 1)] \<and>
   passCount_f64 threeStudents + failCount_f64 threeStudents = length threeStudents"
proof -
  have n: "\<forall>s\<in>set threeStudents. \<not> isNaN (percentage_f64 s)"
    by (simp add: threeStudents_def exampleStudent_f64_def)
  have c: "passCount_f64 threeStudents = 2 \<and> failCount_f64 threeStudents = 1 \<and>
      gradeDist_f64 threeStudents = [(''A'', 1), (''B'', 0), (''C'', 0), (''D'', 1), (''F'', 1)]"
    by (simp add: threeStudents_def exampleStudent_f64_def passCount_f64_def failCount_f64_def
        gradeDist_f64_def determineGrade_f64_def ge_f64_def lt_f64_def)
  from summary_counts_partition [of threeStudents] n
  have "passCount_f64 threeStudents + failCount_f64 threeStudents = length threeStudents"
    unfolding Let_def by blast
  with n c show ?thesis by (simp add: list_all_iff)
qed

text \<open>
  The claim C10 as stated is about every student list. For the list of one student whose
  percentage is \<open>NaN\<close>, \<open>passCount\<close> and \<open>failCount\<close> are both 0, so their sum is not the
  number of students, and the bin \<open>F\<close> is 1, so it is not \<open>failCount\<close>.
\<close>

theorem nan_percentage_counterexample:
  "length [nanStudent] = 1 \<and> percentage_f64 nanStudent = NaN \<and>
   passCount_f64 [nanStudent] = 0 \<and> failCount_f64 [nanStudent] = 0 \<and>
   gradeDist_f64 [nanStudent] = [(''A'', 0), (''B'', 0), (''C'', 0), (''D'', 0), (''F'', 1)]"
  by (simp add: nanStudent_def passCount_f64_def failCount_f64_def gradeDist_f64_def
      determineGrade_f64_def ge_f64_def lt_f64_def)

text \<open>
  The normalizer makes that student of a row whose component cells are \<open>Infinity\<close> and
  \<open>-Infinity\<close>.
\<close>

lemma showNat_0: "showNat 0 = ''0''"
  by code_simp

lemma processRows_f64_infinityRow:
  "processRows_f64 nts junkMapping [infinityRow] = [nanStudent]"
  by (simp add: processRows_f64_def normalizeRow_f64_def resolvedName_def junkMapping_def
      infinityRow_def nanStudent_def getSmartValue_def getProp_def componentStep_f64_def
      parseFloat_f64_def isWhiteSpace_def objSet_def isArrayIndex_def isDigit_def trim_def
      determineGroup_f64_def ge_f64_def showNat_0 Let_def)


end
